theory Spec2Isabelle
  imports Complex_Main "HOL-Library.Sublist"
begin

section \<open>Python numbers\<close>

text \<open>
  The simulator computes with Python floats (IEEE doubles). A float is modelled as a
  real number or one of the three special values an IEEE double can take; the finite
  values are exact reals, so rounding, overflow of a finite result and the sign of a
  zero are not part of the model. \<^verbatim>\<open>math.pi\<close> and \<^verbatim>\<open>math.sqrt(3)\<close> are the
  reals \<open>pi\<close> and \<open>sqrt 3\<close>. A Python \<^verbatim>\<open>int\<close> that meets a float is the
  float of the same value.
\<close>

datatype pyfloat = Fin real | PInf | NInf | NaN

datatype py_error = ZeroDivisionError | ValueError | OverflowError | KeyError

fun fneg :: "pyfloat \<Rightarrow> pyfloat" where
  "fneg (Fin a) = Fin (- a)"
| "fneg PInf = NInf"
| "fneg NInf = PInf"
| "fneg NaN = NaN"

fun fadd :: "pyfloat \<Rightarrow> pyfloat \<Rightarrow> pyfloat" where
  "fadd (Fin a) (Fin b) = Fin (a + b)"
| "fadd NaN y = NaN"
| "fadd x NaN = NaN"
| "fadd PInf NInf = NaN"
| "fadd NInf PInf = NaN"
| "fadd PInf y = PInf"
| "fadd x PInf = PInf"
| "fadd NInf y = NInf"
| "fadd x NInf = NInf"

definition fsub :: "pyfloat \<Rightarrow> pyfloat \<Rightarrow> pyfloat" where
  "fsub x y = fadd x (fneg y)"

text \<open>An infinity of the sign of \<open>a\<close>; \<open>inf * 0\<close> is not a number.\<close>

definition inf_signed :: "real \<Rightarrow> pyfloat" where
  "inf_signed a = (if 0 < a then PInf else if a < 0 then NInf else NaN)"

fun fmul :: "pyfloat \<Rightarrow> pyfloat \<Rightarrow> pyfloat" where
  "fmul (Fin a) (Fin b) = Fin (a * b)"
| "fmul NaN y = NaN"
| "fmul x NaN = NaN"
| "fmul PInf (Fin b) = inf_signed b"
| "fmul NInf (Fin b) = inf_signed (- b)"
| "fmul (Fin a) PInf = inf_signed a"
| "fmul (Fin a) NInf = inf_signed (- a)"
| "fmul PInf PInf = PInf"
| "fmul NInf NInf = PInf"
| "fmul PInf NInf = NInf"
| "fmul NInf PInf = NInf"

text \<open>\<^verbatim>\<open>x ** 2\<close>\<close>

definition fpow2 :: "pyfloat \<Rightarrow> pyfloat" where
  "fpow2 x = fmul x x"

text \<open>
  Division of numpy scalars never raises: a finite number over zero is an infinity of
  the sign of the numerator, and \<open>0 / 0\<close>, \<open>inf / inf\<close> are not a number.
\<close>

fun np_div :: "pyfloat \<Rightarrow> pyfloat \<Rightarrow> pyfloat" where
  "np_div (Fin a) (Fin b) = (if b = 0 then inf_signed a else Fin (a / b))"
| "np_div NaN y = NaN"
| "np_div x NaN = NaN"
| "np_div (Fin a) PInf = Fin 0"
| "np_div (Fin a) NInf = Fin 0"
| "np_div PInf (Fin b) = (if 0 \<le> b then PInf else NInf)"
| "np_div NInf (Fin b) = (if 0 \<le> b then NInf else PInf)"
| "np_div PInf PInf = NaN"
| "np_div PInf NInf = NaN"
| "np_div NInf PInf = NaN"
| "np_div NInf NInf = NaN"

text \<open>
  Division of Python floats raises \<^verbatim>\<open>ZeroDivisionError\<close> on a zero divisor and
  is the IEEE quotient otherwise. Where the divisor is a literal other than zero, or the
  division stands behind a test that the divisor is greater than zero, it cannot raise
  and the engines below take the quotient directly.
\<close>

definition py_div :: "pyfloat \<Rightarrow> pyfloat \<Rightarrow> py_error + pyfloat" where
  "py_div x y = (if y = Fin 0 then Inl ZeroDivisionError else Inr (np_div x y))"

text \<open>Comparisons; every comparison with NaN is false.\<close>

fun fless :: "pyfloat \<Rightarrow> pyfloat \<Rightarrow> bool" where
  "fless (Fin a) (Fin b) = (a < b)"
| "fless NaN y = False"
| "fless x NaN = False"
| "fless x NInf = False"
| "fless PInf y = False"
| "fless NInf y = True"
| "fless x PInf = True"

definition fgt :: "pyfloat \<Rightarrow> pyfloat \<Rightarrow> bool" where
  "fgt x y = fless y x"

definition fle :: "pyfloat \<Rightarrow> pyfloat \<Rightarrow> bool" where
  "fle x y = (x \<noteq> NaN \<and> y \<noteq> NaN \<and> \<not> fless y x)"

definition fge :: "pyfloat \<Rightarrow> pyfloat \<Rightarrow> bool" where
  "fge x y = fle y x"

text \<open>
  The builtins \<^verbatim>\<open>max(a, b)\<close> and \<^verbatim>\<open>min(a, b)\<close> keep the first argument unless
  the second one is strictly greater (smaller).
\<close>

definition py_max :: "pyfloat \<Rightarrow> pyfloat \<Rightarrow> pyfloat" where
  "py_max a b = (if fgt b a then b else a)"

definition py_min :: "pyfloat \<Rightarrow> pyfloat \<Rightarrow> pyfloat" where
  "py_min a b = (if fless b a then b else a)"

text \<open>\<^verbatim>\<open>math.sqrt\<close> raises \<^verbatim>\<open>ValueError\<close> on a negative argument.\<close>

fun py_sqrt :: "pyfloat \<Rightarrow> py_error + pyfloat" where
  "py_sqrt (Fin a) = (if a < 0 then Inl ValueError else Inr (Fin (sqrt a)))"
| "py_sqrt PInf = Inr PInf"
| "py_sqrt NInf = Inl ValueError"
| "py_sqrt NaN = Inr NaN"

text \<open>\<^verbatim>\<open>int(x)\<close> truncates towards zero and raises on the special values.\<close>

fun py_int :: "pyfloat \<Rightarrow> py_error + int" where
  "py_int (Fin a) = Inr (if 0 \<le> a then \<lfloor>a\<rfloor> else \<lceil>a\<rceil>)"
| "py_int PInf = Inl OverflowError"
| "py_int NInf = Inl OverflowError"
| "py_int NaN = Inl ValueError"

text \<open>
  \<^verbatim>\<open>np.linspace(start, stop, num)\<close> with the end point included: \<open>num\<close> samples,
  sample \<open>i\<close> is \<open>i * step + start\<close> with \<open>step = (stop - start) / (num - 1)\<close>
  (computed as \<open>(i / (num - 1)) * (stop - start) + start\<close> when the step is zero),
  and the last sample is set to \<open>stop\<close> itself.
\<close>

definition linspace_sample :: "pyfloat \<Rightarrow> pyfloat \<Rightarrow> nat \<Rightarrow> nat \<Rightarrow> pyfloat" where
  "linspace_sample start stop num i =
     (let dv = Fin (real (num - 1));
          delta = fsub stop start;
          step = np_div delta dv;
          y = (if step = Fin 0 then fmul (np_div (Fin (real i)) dv) delta
               else fmul (Fin (real i)) step)
      in fadd y start)"

definition np_linspace :: "pyfloat \<Rightarrow> pyfloat \<Rightarrow> nat \<Rightarrow> pyfloat list" where
  "np_linspace start stop num =
     (map (linspace_sample start stop num) [0 ..< num])[num - 1 := stop]"

section \<open>The parameter store\<close>

text \<open>
  \<^verbatim>\<open>self.param_vars\<close> maps a parameter key to the text of its entry field. An entry
  is \<open>Numeric v\<close> when \<^verbatim>\<open>float()\<close> converts its text to \<open>v\<close>, and \<open>Text s\<close> when it
  holds a text \<open>s\<close> that \<^verbatim>\<open>float()\<close> rejects with \<^verbatim>\<open>ValueError\<close>.
\<close>

datatype entry = Numeric pyfloat | Text string

type_synonym param_store = "string \<rightharpoonup> entry"

text \<open>\<^verbatim>\<open>float(self.param_vars[key].get())\<close>\<close>

definition param_float :: "param_store \<Rightarrow> string \<Rightarrow> py_error + pyfloat" where
  "param_float param_vars key =
     (case param_vars key of
        None \<Rightarrow> Inl KeyError
      | Some (Text s) \<Rightarrow> Inl ValueError
      | Some (Numeric v) \<Rightarrow> Inr v)"

text \<open>
  \<^verbatim>\<open>get_parameter_value\<close>: the conversion inside \<^verbatim>\<open>try\<close>, with
  \<^verbatim>\<open>except (ValueError, KeyError): return default\<close>. These are the only two errors
  the conversion raises (\<open>param_float_errors\<close> below), so the function always returns.
\<close>

definition get_parameter_value :: "param_store \<Rightarrow> string \<Rightarrow> pyfloat \<Rightarrow> pyfloat" where
  "get_parameter_value param_vars key dflt =
     (case param_float param_vars key of
        Inr v \<Rightarrow> v
      | Inl e \<Rightarrow> dflt)"

section \<open>The result bundle\<close>

text \<open>
  The dictionary an engine returns. The keys both engines write are the fields of
  \<open>results\<close>; the keys of one engine extend it. \<^verbatim>\<open>timestamp\<close> is absent until
  the run stores the bundle in the history.
\<close>

record results =
  motor_type :: string
  timestamp :: "string option"
  input_voltage :: pyfloat
  input_current :: pyfloat
  input_power :: pyfloat
  output_power :: pyfloat
  mechanical_power :: pyfloat
  efficiency :: pyfloat
  speed_rpm :: pyfloat
  speed_rad_s :: pyfloat
  torque :: pyfloat
  load_torque :: pyfloat
  developed_torque :: pyfloat
  core_loss :: pyfloat
  mechanical_loss :: pyfloat
  total_loss :: pyfloat
  operating_temp :: pyfloat
  temp_rise :: pyfloat
  power_factor :: pyfloat
  speed_range :: "pyfloat list"
  torque_curve :: "pyfloat list"
  current_curve :: "pyfloat list"
  power_curve :: "pyfloat list"
  efficiency_curve :: "pyfloat list"

record dc_results = results +
  armature_current :: pyfloat
  field_current :: pyfloat
  back_emf :: pyfloat
  armature_loss :: pyfloat
  field_loss :: pyfloat
  current_density :: pyfloat

record ac_results = results +
  synchronous_speed :: pyfloat
  slip :: pyfloat
  frequency :: pyfloat
  poles :: int
  stator_current :: pyfloat
  stator_loss :: pyfloat
  rotor_loss :: pyfloat
  air_gap_power :: pyfloat

section \<open>The performance rating\<close>

text \<open>
  \<^verbatim>\<open>str.upper()\<close> on the letters of the insulation table. Only the ASCII letters
  \<open>a\<close> to \<open>z\<close> have an upper case among \<open>A\<close> to \<open>Z\<close> that the table could
  hold, so the other characters are left as they are.
\<close>

definition upper_char :: "char \<Rightarrow> char" where
  "upper_char c =
     (let n = (of_char c :: nat)
      in if of_char CHR ''a'' \<le> n \<and> n \<le> of_char CHR ''z'' then char_of (n - 32) else c)"

definition upper :: "string \<Rightarrow> string" where
  "upper s = map upper_char s"

text \<open>\<^verbatim>\<open>temp_limits.get(insulation_class, 155)\<close>\<close>

definition temp_limits :: "string \<rightharpoonup> int" where
  "temp_limits = [''A'' \<mapsto> 105, ''B'' \<mapsto> 130, ''F'' \<mapsto> 155, ''H'' \<mapsto> 180]"

definition temp_limit_of :: "string \<Rightarrow> int" where
  "temp_limit_of insulation_class =
     (case temp_limits insulation_class of Some l \<Rightarrow> l | None \<Rightarrow> 155)"

text \<open>
  \<^verbatim>\<open>self.param_vars['insulation_class'].get().upper()\<close>: a missing key raises
  \<^verbatim>\<open>KeyError\<close>. A text that \<^verbatim>\<open>float()\<close> accepts is none of the four letters
  in either case, so a numeric entry has the fallback limit.
\<close>

definition insulation_limit :: "param_store \<Rightarrow> py_error + int" where
  "insulation_limit param_vars =
     (case param_vars ''insulation_class'' of
        None \<Rightarrow> Inl KeyError
      | Some (Text s) \<Rightarrow> Inr (temp_limit_of (upper s))
      | Some (Numeric v) \<Rightarrow> Inr 155)"

record rating =
  score :: int
  grade :: string
  assessment :: string

definition calculate_performance_rating ::
  "param_store \<Rightarrow> 'a results_scheme \<Rightarrow> py_error + rating" where
  "calculate_performance_rating param_vars res =
     (let score0 = 0;
          eff = efficiency res;
          score1 = (if fge eff (Fin 90) then score0 + 40
                    else if fge eff (Fin 80) then score0 + 35
                    else if fge eff (Fin 70) then score0 + 25
                    else if fge eff (Fin 60) then score0 + 15
                    else score0 + 5);
          pf = power_factor res;
          score2 = (if fge pf (Fin 0.95) then score1 + 30
                    else if fge pf (Fin 0.85) then score1 + 25
                    else if fge pf (Fin 0.75) then score1 + 15
                    else score1 + 5);
          temp = operating_temp res
      in case insulation_limit param_vars of
           Inl e \<Rightarrow> Inl e
         | Inr limit \<Rightarrow>
             (let temp_ratio = np_div temp (Fin (of_int limit));
                  score3 = (if fless temp_ratio (Fin 0.7) then score2 + 30
                            else if fless temp_ratio (Fin 0.85) then score2 + 20
                            else if fless temp_ratio (Fin 1.0) then score2 + 10
                            else score2 + 0)
              in if score3 \<ge> 90 then
                   Inr \<lparr>score = score3, grade = ''A+ (Excellent)'',
                        assessment = ''Outstanding performance''\<rparr>
                 else if score3 \<ge> 80 then
                   Inr \<lparr>score = score3, grade = ''A (Very Good)'',
                        assessment = ''Very good performance''\<rparr>
                 else if score3 \<ge> 70 then
                   Inr \<lparr>score = score3, grade = ''B (Good)'',
                        assessment = ''Good performance''\<rparr>
                 else if score3 \<ge> 60 then
                   Inr \<lparr>score = score3, grade = ''C (Acceptable)'',
                        assessment = ''Acceptable performance''\<rparr>
                 else
                   Inr \<lparr>score = score3, grade = ''D (Poor)'',
                        assessment = ''Needs improvement''\<rparr>))"

subsection \<open>The threshold tables as the specification words them\<close>

text \<open>
  Efficiency (max 40 points): at least 90 gives 40, at least 80 gives 35, at least 70
  gives 25, at least 60 gives 15, anything else 5.
\<close>

definition spec_efficiency_points :: "pyfloat \<Rightarrow> int" where
  "spec_efficiency_points eff =
     (if fge eff (Fin 90) then 40 else if fge eff (Fin 80) then 35
      else if fge eff (Fin 70) then 25 else if fge eff (Fin 60) then 15 else 5)"

text \<open>
  Power factor (max 30 points): at least 0.95 gives 30, at least 0.85 gives 25, at
  least 0.75 gives 15, anything else 5.
\<close>

definition spec_power_factor_points :: "pyfloat \<Rightarrow> int" where
  "spec_power_factor_points pf =
     (if fge pf (Fin 0.95) then 30 else if fge pf (Fin 0.85) then 25
      else if fge pf (Fin 0.75) then 15 else 5)"

text \<open>
  Thermal margin (max 30 points), on the ratio of operating temperature to insulation
  limit: below 0.70 gives 30, below 0.85 gives 20, below 1.00 gives 10, anything else 0.
\<close>

definition spec_thermal_points :: "pyfloat \<Rightarrow> int" where
  "spec_thermal_points ratio =
     (if fless ratio (Fin 0.70) then 30 else if fless ratio (Fin 0.85) then 20
      else if fless ratio (Fin 1.00) then 10 else 0)"


text \<open>Grade on the total: from 90 A+, from 80 A, from 70 B, from 60 C, else D.\<close>

definition spec_grade :: "int \<Rightarrow> string" where
  "spec_grade tot =
     (if tot \<ge> 90 then ''A+ (Excellent)'' else if tot \<ge> 80 then ''A (Very Good)''
      else if tot \<ge> 70 then ''B (Good)'' else if tot \<ge> 60 then ''C (Acceptable)''
      else ''D (Poor)'')"

section \<open>The DC engine\<close>

text \<open>
  A local variable of the source whose name is also a key of the result bundle carries
  a prime here.
\<close>

text \<open>
  The body of the sweep loop of \<^verbatim>\<open>simulate_dc_motor\<close> at the speed sample \<open>n\<close>:
  the values appended to the torque, current, power and efficiency curves. The samples
  are numpy scalars, so the divisions here do not raise.
\<close>

definition dc_sample ::
  "pyfloat \<Rightarrow> pyfloat \<Rightarrow> pyfloat \<Rightarrow> pyfloat \<Rightarrow> pyfloat \<Rightarrow> pyfloat
     \<Rightarrow> pyfloat \<times> pyfloat \<times> pyfloat \<times> pyfloat" where
  "dc_sample V V_armature Ra Ke Kt n =
     (let omega = np_div (fmul (fmul n (Fin 2)) (Fin pi)) (Fin 60);
          Eb = fmul Ke omega;
          Ia = py_max (Fin 0) (np_div (fsub V_armature Eb) Ra);
          T = fmul Kt Ia;
          P_out = fmul T omega;
          P_in = fmul V Ia;
          eff = (if fgt P_in (Fin 0) then fmul (np_div P_out P_in) (Fin 100) else Fin 0)
      in (T, Ia, P_out, py_min eff (Fin 100)))"

text \<open>The loop \<^verbatim>\<open>for n in speed_range\<close>, appending to the four curves.\<close>

fun dc_sweep ::
  "pyfloat \<Rightarrow> pyfloat \<Rightarrow> pyfloat \<Rightarrow> pyfloat \<Rightarrow> pyfloat \<Rightarrow> pyfloat list
     \<Rightarrow> pyfloat list \<times> pyfloat list \<times> pyfloat list \<times> pyfloat list
     \<Rightarrow> pyfloat list \<times> pyfloat list \<times> pyfloat list \<times> pyfloat list" where
  "dc_sweep V V_armature Ra Ke Kt [] curves = curves"
| "dc_sweep V V_armature Ra Ke Kt (n # ns)
      (torque_curve', current_curve', power_curve', efficiency_curve') =
     (case dc_sample V V_armature Ra Ke Kt n of
        (T, Ia, P_out, eff) \<Rightarrow>
          dc_sweep V V_armature Ra Ke Kt ns
            (torque_curve' @ [T], current_curve' @ [Ia], power_curve' @ [P_out],
             efficiency_curve' @ [eff]))"

definition simulate_dc_motor :: "param_store \<Rightarrow> py_error + dc_results" where
  "simulate_dc_motor param_vars =
     (let V = get_parameter_value param_vars ''rated_voltage'' (Fin 220);
          I_rated = get_parameter_value param_vars ''rated_current'' (Fin 10);
          Ra = get_parameter_value param_vars ''armature_resistance'' (Fin 1.5);
          Rf = get_parameter_value param_vars ''field_resistance'' (Fin 100);
          Ke = get_parameter_value param_vars ''back_emf_constant'' (Fin 0.8);
          Kt = get_parameter_value param_vars ''torque_constant'' (Fin 0.8);
          T_load = get_parameter_value param_vars ''load_torque'' (Fin 10);
          N_rated = get_parameter_value param_vars ''rated_speed'' (Fin 1500);
          J = get_parameter_value param_vars ''rotor_inertia'' (Fin 0.001)
      in case py_div V Rf of
           Inl e \<Rightarrow> Inl e
         | Inr I_field \<Rightarrow>
      (let V_armature = V;
           omega_rated = np_div (fmul (fmul N_rated (Fin 2)) (Fin pi)) (Fin 60);
           Eb_rated = fmul Ke omega_rated
       in case py_div (fsub V_armature Eb_rated) Ra of
            Inl e \<Rightarrow> Inl e
          | Inr I_armature \<Rightarrow>
      (let T_developed = fmul Kt I_armature;
           T_friction = fmul T_developed (Fin 0.05);
           T_shaft = fsub T_developed T_friction;
           speed_reduction_factor =
             (if fgt T_developed (Fin 0) then np_div T_load T_developed else Fin 0);
           N_actual = fmul N_rated (fsub (Fin 1) (fmul speed_reduction_factor (Fin 0.1)));
           omega_actual = np_div (fmul (fmul N_actual (Fin 2)) (Fin pi)) (Fin 60);
           P_input = fmul V I_armature;
           P_armature_loss = fmul (fpow2 I_armature) Ra;
           P_field_loss = fmul (fpow2 I_field) Rf;
           P_mechanical = fmul T_shaft omega_actual;
           P_output = fmul T_load omega_actual;
           efficiency' =
             (if fgt P_input (Fin 0) then fmul (np_div P_output P_input) (Fin 100)
              else Fin 0);
           P_core_loss = fmul (Fin 0.02) P_input;
           P_total_loss =
             fadd (fadd (fadd P_armature_loss P_field_loss) P_core_loss)
               (fmul T_friction omega_actual);
           thermal_resistance = Fin 5;
           temp_rise' = fmul P_total_loss thermal_resistance;
           ambient_temp = get_parameter_value param_vars ''ambient_temp'' (Fin 40);
           operating_temp' = fadd ambient_temp temp_rise';
           conductor_area = Fin 0.0001;
           current_density' =
             (if fgt conductor_area (Fin 0) then np_div I_armature conductor_area
              else Fin 0);
           speed_range' = np_linspace (Fin 0) (fmul N_rated (Fin 1.2)) 50
       in case dc_sweep V V_armature Ra Ke Kt speed_range' ([], [], [], []) of
            (torque_curve', current_curve', power_curve', efficiency_curve') \<Rightarrow>
              Inr \<lparr>motor_type = ''DC Motor'',
                   timestamp = None,
                   input_voltage = V,
                   input_current = I_armature,
                   input_power = P_input,
                   output_power = P_output,
                   mechanical_power = P_mechanical,
                   efficiency = efficiency',
                   speed_rpm = N_actual,
                   speed_rad_s = omega_actual,
                   torque = T_shaft,
                   load_torque = T_load,
                   developed_torque = T_developed,
                   core_loss = P_core_loss,
                   mechanical_loss = fmul T_friction omega_actual,
                   total_loss = P_total_loss,
                   operating_temp = operating_temp',
                   temp_rise = temp_rise',
                   power_factor = Fin 1.0,
                   speed_range = speed_range',
                   torque_curve = torque_curve',
                   current_curve = current_curve',
                   power_curve = power_curve',
                   efficiency_curve = efficiency_curve',
                   armature_current = I_armature,
                   field_current = I_field,
                   back_emf = fmul Ke omega_actual,
                   armature_loss = P_armature_loss,
                   field_loss = P_field_loss,
                   current_density = current_density'\<rparr>)))"

section \<open>The AC engine\<close>

text \<open>
  Two locals of \<^verbatim>\<open>simulate_ac_motor\<close> that the bundle does not hold: the rotor
  resistance referred to the stator, \<^verbatim>\<open>Rr / s if s > 0 else float('inf')\<close>, and
  the impedance \<^verbatim>\<open>math.sqrt((Rs + Rr_prime)**2 + (X1 + X2)**2)\<close>.
\<close>

definition Rr_prime_of :: "pyfloat \<Rightarrow> pyfloat \<Rightarrow> pyfloat" where
  "Rr_prime_of Rr s = (if fgt s (Fin 0) then np_div Rr s else PInf)"

definition Z_of :: "pyfloat \<Rightarrow> pyfloat \<Rightarrow> pyfloat \<Rightarrow> pyfloat \<Rightarrow> py_error + pyfloat" where
  "Z_of Rs Rr_prime X1 X2 = py_sqrt (fadd (fpow2 (fadd Rs Rr_prime)) (fpow2 (fadd X1 X2)))"

text \<open>
  The body of the sweep loop at the slip sample \<open>s_val\<close>. The sample is a numpy
  scalar, so the divisions it takes part in do not raise; \<^verbatim>\<open>math.sqrt\<close> can.
\<close>

definition ac_sample ::
  "pyfloat \<Rightarrow> pyfloat \<Rightarrow> pyfloat \<Rightarrow> pyfloat \<Rightarrow> pyfloat \<Rightarrow> pyfloat \<Rightarrow> pyfloat \<Rightarrow> pyfloat
     \<Rightarrow> pyfloat \<Rightarrow> py_error + pyfloat \<times> pyfloat \<times> pyfloat \<times> pyfloat" where
  "ac_sample V Vph Rs Rr X1 X2 Ns omega_sync s_val =
     (let Rr_s = (if fgt s_val (Fin 0) then np_div Rr s_val else PInf)
      in case py_sqrt (fadd (fpow2 (fadd Rs Rr_s)) (fpow2 (fadd X1 X2))) of
           Inl e \<Rightarrow> Inl e
         | Inr Z_s \<Rightarrow>
      (let I_s = (if fgt Z_s (Fin 0) then np_div Vph Z_s else Fin 0);
           T_s =
             (if fgt s_val (Fin 0) then
                np_div (np_div (fmul (fmul (Fin 3) (fpow2 Vph)) Rr) s_val)
                  (fmul omega_sync
                     (fadd (fpow2 (fadd Rs (np_div Rr s_val))) (fpow2 (fadd X1 X2))))
              else Fin 0);
           P_in_s = fmul (fmul (fmul (Fin (sqrt 3)) V) I_s) (np_div (fadd Rs Rr_s) Z_s);
           P_out_s =
             np_div (fmul (fmul (fmul (fmul T_s Ns) (fsub (Fin 1) s_val)) (Fin 2)) (Fin pi))
               (Fin 60);
           eff_s =
             (if fgt P_in_s (Fin 0) then fmul (np_div P_out_s P_in_s) (Fin 100) else Fin 0)
       in Inr (T_s, fmul I_s (Fin (sqrt 3)), P_out_s, py_min eff_s (Fin 100))))"

text \<open>The loop \<^verbatim>\<open>for s_val in slip_range\<close>; an error of the body leaves the loop.\<close>

fun ac_sweep ::
  "pyfloat \<Rightarrow> pyfloat \<Rightarrow> pyfloat \<Rightarrow> pyfloat \<Rightarrow> pyfloat \<Rightarrow> pyfloat \<Rightarrow> pyfloat \<Rightarrow> pyfloat
     \<Rightarrow> pyfloat list
     \<Rightarrow> pyfloat list \<times> pyfloat list \<times> pyfloat list \<times> pyfloat list
     \<Rightarrow> py_error + pyfloat list \<times> pyfloat list \<times> pyfloat list \<times> pyfloat list" where
  "ac_sweep V Vph Rs Rr X1 X2 Ns omega_sync [] curves = Inr curves"
| "ac_sweep V Vph Rs Rr X1 X2 Ns omega_sync (s_val # rest)
      (torque_curve', current_curve', power_curve', efficiency_curve') =
     (case ac_sample V Vph Rs Rr X1 X2 Ns omega_sync s_val of
        Inl e \<Rightarrow> Inl e
      | Inr (T_s, I_line, P_out_s, eff) \<Rightarrow>
          ac_sweep V Vph Rs Rr X1 X2 Ns omega_sync rest
            (torque_curve' @ [T_s], current_curve' @ [I_line], power_curve' @ [P_out_s],
             efficiency_curve' @ [eff]))"

definition simulate_ac_motor :: "param_store \<Rightarrow> py_error + ac_results" where
  "simulate_ac_motor param_vars =
     (let V = get_parameter_value param_vars ''rated_voltage'' (Fin 220);
          I_rated = get_parameter_value param_vars ''rated_current'' (Fin 10);
          f = get_parameter_value param_vars ''frequency'' (Fin 50)
      in case py_int (get_parameter_value param_vars ''poles'' (Fin 4)) of
           Inl e \<Rightarrow> Inl e
         | Inr P_poles \<Rightarrow>
      (let Rs = get_parameter_value param_vars ''stator_resistance'' (Fin 1.2);
           Rr = get_parameter_value param_vars ''rotor_resistance'' (Fin 0.8);
           Im = get_parameter_value param_vars ''magnetizing_current'' (Fin 3.0);
           slip_percent = get_parameter_value param_vars ''slip'' (Fin 3.0);
           T_load = get_parameter_value param_vars ''load_torque'' (Fin 10)
       in case py_div (fmul (Fin 120) f) (Fin (of_int P_poles)) of
            Inl e \<Rightarrow> Inl e
          | Inr Ns \<Rightarrow>
      (let omega_sync = np_div (fmul (fmul Ns (Fin 2)) (Fin pi)) (Fin 60);
           s = np_div slip_percent (Fin 100);
           Nr = fmul Ns (fsub (Fin 1) s);
           omega_r = np_div (fmul (fmul Nr (Fin 2)) (Fin pi)) (Fin 60)
       in case py_div V (fmul Im (Fin (sqrt 3))) of
            Inl e \<Rightarrow> Inl e
          | Inr Xm \<Rightarrow>
      (let X1 = fmul (Fin 0.1) Xm;
           X2 = fmul (Fin 0.1) Xm;
           Rr_prime = Rr_prime_of Rr s
       in case Z_of Rs Rr_prime X1 X2 of
            Inl e \<Rightarrow> Inl e
          | Inr Z \<Rightarrow>
      (let Vph = np_div V (Fin (sqrt 3));
           I1 = (if fgt Z (Fin 0) then np_div Vph Z else Fin 0);
           power_factor' = (if fgt Z (Fin 0) then np_div (fadd Rs Rr_prime) Z else Fin 0);
           P_input = fmul (fmul (fmul (Fin (sqrt 3)) V) I1) power_factor';
           P_ag = fsub P_input (fmul (fmul (Fin 3) (fpow2 I1)) Rs);
           P_rcl = fmul s P_ag;
           P_mech = fsub P_ag P_rcl;
           T_developed = (if fgt omega_r (Fin 0) then np_div P_mech omega_r else Fin 0);
           P_core = fmul (Fin 0.03) P_input;
           P_fw = fmul (Fin 0.01) P_input;
           P_output = fsub P_mech P_fw;
           T_output = (if fgt omega_r (Fin 0) then np_div P_output omega_r else Fin 0);
           P_loss = fsub P_input P_output;
           efficiency' =
             (if fgt P_input (Fin 0) then fmul (np_div P_output P_input) (Fin 100)
              else Fin 0);
           thermal_resistance = Fin 6;
           temp_rise' = fmul P_loss thermal_resistance;
           ambient_temp = get_parameter_value param_vars ''ambient_temp'' (Fin 40);
           operating_temp' = fadd ambient_temp temp_rise';
           slip_range = np_linspace (Fin 0.001) (Fin 1.0) 50;
           speed_range' = map (\<lambda>s_val. fmul Ns (fsub (Fin 1) s_val)) slip_range
       in case ac_sweep V Vph Rs Rr X1 X2 Ns omega_sync slip_range ([], [], [], []) of
            Inl e \<Rightarrow> Inl e
          | Inr (torque_curve', current_curve', power_curve', efficiency_curve') \<Rightarrow>
              Inr \<lparr>motor_type = ''AC Induction Motor (3-Phase)'',
                   timestamp = None,
                   input_voltage = V,
                   input_current = fmul I1 (Fin (sqrt 3)),
                   input_power = P_input,
                   output_power = P_output,
                   mechanical_power = P_mech,
                   efficiency = efficiency',
                   speed_rpm = Nr,
                   speed_rad_s = omega_r,
                   torque = T_output,
                   load_torque = T_load,
                   developed_torque = T_developed,
                   core_loss = P_core,
                   mechanical_loss = P_fw,
                   total_loss = P_loss,
                   operating_temp = operating_temp',
                   temp_rise = temp_rise',
                   power_factor = power_factor',
                   speed_range = speed_range',
                   torque_curve = torque_curve',
                   current_curve = current_curve',
                   power_curve = power_curve',
                   efficiency_curve = efficiency_curve',
                   synchronous_speed = Ns,
                   slip = fmul s (Fin 100),
                   frequency = f,
                   poles = P_poles,
                   stator_current = I1,
                   stator_loss = fmul (fmul (Fin 3) (fpow2 I1)) Rs,
                   rotor_loss = P_rcl,
                   air_gap_power = P_ag\<rparr>)))))"

section \<open>A simulation run\<close>

text \<open>
  The history holds the bundles of both engines. The simulator object is the parameter
  store, the motor type selected in the window and the history.
\<close>

datatype result_bundle = DC_bundle dc_results | AC_bundle ac_results

record simulator =
  sim_param_vars :: param_store
  sim_motor_type :: string
  simulation_history :: "result_bundle list"

text \<open>
  \<^verbatim>\<open>display_results\<close> reads the insulation class for the temperature status and
  calls the rating; everything else it does is formatting and calls into the text widget.
\<close>

definition display_results :: "param_store \<Rightarrow> result_bundle \<Rightarrow> py_error + rating" where
  "display_results param_vars res =
     (case insulation_limit param_vars of
        Inl e \<Rightarrow> Inl e
      | Inr limit \<Rightarrow>
          (case res of
             DC_bundle d \<Rightarrow> calculate_performance_rating param_vars d
           | AC_bundle a \<Rightarrow> calculate_performance_rating param_vars a))"

text \<open>
  \<^verbatim>\<open>results['timestamp'] = ...; results['motor_type'] = motor_type\<close>
\<close>

definition stamp :: "string \<Rightarrow> string \<Rightarrow> result_bundle \<Rightarrow> result_bundle" where
  "stamp now mt res =
     (case res of
        DC_bundle d \<Rightarrow> DC_bundle (d\<lparr>timestamp := Some now, motor_type := mt\<rparr>)
      | AC_bundle a \<Rightarrow> AC_bundle (a\<lparr>timestamp := Some now, motor_type := mt\<rparr>))"

text \<open>
  What the run leaves on the screen: the results, or the error box of the
  \<^verbatim>\<open>except Exception\<close> clause.
\<close>

datatype outcome = Completed | Reported py_error

text \<open>
  \<^verbatim>\<open>run_simulation\<close>. The calls into Tk and matplotlib are outside the repository:
  \<open>toolkit res\<close> is \<open>Some e\<close> when one of them raises \<open>e\<close> while the bundle \<open>res\<close>
  is shown and plotted, and \<open>now\<close> is the formatted time of the run.
\<close>

definition run_simulation ::
  "(result_bundle \<Rightarrow> py_error option) \<Rightarrow> string \<Rightarrow> simulator \<Rightarrow> outcome \<times> simulator" where
  "run_simulation toolkit now app =
     (let mt = sim_motor_type app;
          computed =
            (if mt = ''DC'' then map_sum id DC_bundle (simulate_dc_motor (sim_param_vars app))
             else map_sum id AC_bundle (simulate_ac_motor (sim_param_vars app)))
      in case computed of
           Inl e \<Rightarrow> (Reported e, app)
         | Inr res \<Rightarrow>
             (case display_results (sim_param_vars app) res of
                Inl e \<Rightarrow> (Reported e, app)
              | Inr shown \<Rightarrow>
                  (case toolkit res of
                     Some e \<Rightarrow> (Reported e, app)
                   | None \<Rightarrow>
                       (Completed,
                        app\<lparr>simulation_history :=
                              simulation_history app @ [stamp now mt res]\<rparr>))))"

section \<open>Concrete stores and bundles for the examples\<close>

text \<open>
  The store right after start-up, as \<^verbatim>\<open>create_parameter_inputs\<close> fills it: every
  entry field holds its default text.
\<close>

definition default_param_vars :: param_store where
  "default_param_vars = map_of
     [(''rated_voltage'', Numeric (Fin 220)),
      (''rated_current'', Numeric (Fin 10)),
      (''rated_power'', Numeric (Fin 2200)),
      (''rated_speed'', Numeric (Fin 1500)),
      (''rated_torque'', Numeric (Fin 14.0)),
      (''load_torque'', Numeric (Fin 10.0)),
      (''frame_size'', Numeric (Fin 100)),
      (''rotor_inertia'', Numeric (Fin 0.001)),
      (''weight'', Numeric (Fin 15)),
      (''insulation_class'', Text ''F''),
      (''duty_cycle'', Numeric (Fin 100)),
      (''ambient_temp'', Numeric (Fin 40)),
      (''armature_resistance'', Numeric (Fin 1.5)),
      (''field_resistance'', Numeric (Fin 100)),
      (''back_emf_constant'', Numeric (Fin 0.8)),
      (''torque_constant'', Numeric (Fin 0.8)),
      (''frequency'', Numeric (Fin 50)),
      (''poles'', Numeric (Fin 4)),
      (''stator_resistance'', Numeric (Fin 1.2)),
      (''rotor_resistance'', Numeric (Fin 0.8)),
      (''magnetizing_current'', Numeric (Fin 3.0)),
      (''slip'', Numeric (Fin 3.0))]"

text \<open>
  A bundle of which only the three keys the rating reads are of interest: efficiency,
  power factor and operating temperature.
\<close>

definition rated_bundle :: "pyfloat \<Rightarrow> pyfloat \<Rightarrow> pyfloat \<Rightarrow> results" where
  "rated_bundle eff pf temp =
     \<lparr>motor_type = ''DC Motor'', timestamp = None, input_voltage = Fin 0,
      input_current = Fin 0, input_power = Fin 0, output_power = Fin 0,
      mechanical_power = Fin 0, efficiency = eff, speed_rpm = Fin 0, speed_rad_s = Fin 0,
      torque = Fin 0, load_torque = Fin 0, developed_torque = Fin 0, core_loss = Fin 0,
      mechanical_loss = Fin 0, total_loss = Fin 0, operating_temp = temp,
      temp_rise = Fin 0, power_factor = pf, speed_range = [], torque_curve = [],
      current_curve = [], power_curve = [], efficiency_curve = []\<rparr>"

section \<open>Not a number is absorbing\<close>

lemma fadd_NaN_right [simp]: "fadd x NaN = NaN"
  by (cases x) simp_all

lemma fmul_NaN_right [simp]: "fmul x NaN = NaN"
  by (cases x) simp_all

lemma np_div_NaN_right [simp]: "np_div x NaN = NaN"
  by (cases x) simp_all

lemma fsub_NaN [simp]: "fsub NaN y = NaN" "fsub x NaN = NaN"
  by (simp_all add: fsub_def)

section \<open>Parameter lookup\<close>

lemma param_float_errors:
  "param_float param_vars key = Inl e \<Longrightarrow> e = KeyError \<or> e = ValueError"
  by (auto simp: param_float_def split: option.splits entry.splits)

lemma get_parameter_value_Numeric [simp]:
  "param_vars key = Some (Numeric v) \<Longrightarrow> get_parameter_value param_vars key dflt = v"
  by (simp add: get_parameter_value_def param_float_def)

lemma get_parameter_value_missing [simp]:
  "param_vars key = None \<Longrightarrow> get_parameter_value param_vars key dflt = dflt"
  by (simp add: get_parameter_value_def param_float_def)

lemma get_parameter_value_Text [simp]:
  "param_vars key = Some (Text s) \<Longrightarrow> get_parameter_value param_vars key dflt = dflt"
  by (simp add: get_parameter_value_def param_float_def)

section \<open>The rating\<close>

lemma efficiency_points_add:
  "(if fge e (Fin 90) then s + 40 else if fge e (Fin 80) then s + 35
    else if fge e (Fin 70) then s + 25 else if fge e (Fin 60) then s + 15 else s + 5)
   = s + spec_efficiency_points e"
  by (simp add: spec_efficiency_points_def)

lemma power_factor_points_add:
  "(if fge p (Fin 0.95) then s + 30 else if fge p (Fin 0.85) then s + 25
    else if fge p (Fin 0.75) then s + 15 else s + 5)
   = s + spec_power_factor_points p"
  by (simp add: spec_power_factor_points_def)

lemma thermal_points_add:
  "(if fless t (Fin 0.7) then s + 30 else if fless t (Fin 0.85) then s + 20
    else if fless t (Fin 1.0) then s + 10 else s + 0)
   = s + spec_thermal_points t"
  by (simp add: spec_thermal_points_def)

text \<open>The rating in closed form: the three table values added, graded by the total.\<close>

lemma calculate_performance_rating_eq:
  "calculate_performance_rating param_vars res =
     (case insulation_limit param_vars of
        Inl e \<Rightarrow> Inl e
      | Inr limit \<Rightarrow>
          (let tot = spec_efficiency_points (efficiency res)
                 + spec_power_factor_points (power_factor res)
                 + spec_thermal_points (np_div (operating_temp res) (Fin (of_int limit)))
           in Inr \<lparr>score = tot, grade = spec_grade tot,
                   assessment =
                     (if tot \<ge> 90 then ''Outstanding performance''
                      else if tot \<ge> 80 then ''Very good performance''
                      else if tot \<ge> 70 then ''Good performance''
                      else if tot \<ge> 60 then ''Acceptable performance''
                      else ''Needs improvement'')\<rparr>))"
  unfolding calculate_performance_rating_def Let_def
    efficiency_points_add power_factor_points_add thermal_points_add
  by (simp add: spec_grade_def split: sum.splits)

lemma points_bounds:
  "5 \<le> spec_efficiency_points e" "spec_efficiency_points e \<le> 40"
  "5 \<le> spec_power_factor_points p" "spec_power_factor_points p \<le> 30"
  "0 \<le> spec_thermal_points t" "spec_thermal_points t \<le> 30"
  by (simp_all add: spec_efficiency_points_def spec_power_factor_points_def
      spec_thermal_points_def)


lemma insulation_limit_default: "insulation_limit [''insulation_class'' \<mapsto> Text ''F''] = Inr 155"
  by (simp add: insulation_limit_def temp_limit_of_def temp_limits_def upper_def
      upper_char_def)



text \<open>
  C9. Every score the rating returns lies between 10 and 100: it is the sum of an
  efficiency share of at least 5 and at most 40, a power-factor share of at least 5 and
  at most 30, and a thermal share between 0 and 30.
\<close>

theorem rating_score_bounds:
  assumes "calculate_performance_rating param_vars res = Inr x"
  shows "10 \<le> score x \<and> score x \<le> 100
    \<and> (\<exists>a b c. score x = a + b + c \<and> 5 \<le> a \<and> a \<le> 40 \<and> 5 \<le> b \<and> b \<le> 30
          \<and> 0 \<le> c \<and> c \<le> 30)"
proof -
  obtain limit where l: "insulation_limit param_vars = Inr limit"
    using assms by (auto simp: calculate_performance_rating_eq split: sum.splits)
  let ?a = "spec_efficiency_points (efficiency res)"
  let ?b = "spec_power_factor_points (power_factor res)"
  let ?c = "spec_thermal_points (np_div (operating_temp res) (Fin (of_int limit)))"
  have sc: "score x = ?a + ?b + ?c"
    using assms l by (auto simp: calculate_performance_rating_eq Let_def)
  have b: "5 \<le> ?a" "?a \<le> 40" "5 \<le> ?b" "?b \<le> 30" "0 \<le> ?c" "?c \<le> 30"
    by (rule points_bounds)+
  have "10 \<le> score x \<and> score x \<le> 100" using sc b by linarith
  moreover have "\<exists>a b c. score x = a + b + c \<and> 5 \<le> a \<and> a \<le> 40 \<and> 5 \<le> b \<and> b \<le> 30
          \<and> 0 \<le> c \<and> c \<le> 30"
    using sc b by blast
  ultimately show ?thesis by blast
qed

theorem rating_score_bounds_witness:
  "\<exists>x. calculate_performance_rating [''insulation_class'' \<mapsto> Text ''F'']
          (rated_bundle (Fin 0) NaN (Fin 200)) = Inr x
     \<and> score x = 10 \<and> 10 \<le> score x \<and> score x \<le> 100"
proof -
  let ?pv = "[''insulation_class'' \<mapsto> Text ''F'']"
  let ?res = "rated_bundle (Fin 0) NaN (Fin 200)"
  have e: "calculate_performance_rating ?pv ?res
      = Inr \<lparr>score = 10, grade = ''D (Poor)'', assessment = ''Needs improvement''\<rparr>"
    by (simp add: calculate_performance_rating_eq insulation_limit_default Let_def
        rated_bundle_def spec_efficiency_points_def spec_power_factor_points_def
        spec_thermal_points_def spec_grade_def fge_def fle_def)
  show ?thesis using rating_score_bounds [OF e] e by simp
qed

section \<open>Bounds on pi\<close>

lemma arctan_le_self: assumes "0 \<le> x" shows "arctan x \<le> (x::real)"
proof -
  let ?f = "\<lambda>x. x - arctan x"
  have "\<And>u. \<lbrakk>0 \<le> u; u \<le> x\<rbrakk> \<Longrightarrow> \<exists>y. (?f has_real_derivative y) (at u) \<and> 0 \<le> y"
  proof -
    fix u :: real
    have "(?f has_real_derivative (1 - inverse (1 + u\<^sup>2))) (at u)"
      by (auto intro!: derivative_eq_intros)
    moreover have "0 \<le> 1 - inverse (1 + u\<^sup>2)"
      by (simp add: field_simps add_pos_nonneg)
    ultimately show "\<exists>y. (?f has_real_derivative y) (at u) \<and> 0 \<le> y" by blast
  qed
  then have "?f 0 \<le> ?f x"
    using DERIV_nonneg_imp_nondecreasing [OF assms, of ?f] by blast
  then show ?thesis by simp
qed

lemma pi_le_3_2: "pi \<le> 3.2"
proof -
  have "arctan (1/7) \<le> 1/7" "arctan (3/79) \<le> 3/79"
    by (rule arctan_le_self, simp)+
  then have "pi / 4 \<le> 5 * (1/7) + 2 * (3/79)"
    using machin_Euler by linarith
  then show ?thesis by simp
qed

lemma pi_ge_3: "3 \<le> pi"
proof (rule ccontr)
  assume "\<not> 3 \<le> pi"
  then have lt: "pi / 6 < 1 / 2" by simp
  have "sin (pi / 6) < sin (1 / 2)"
    by (rule sin_monotone_2pi) (use lt pi_ge_two in auto)
  moreover have "sin (1/2) \<le> (1/2::real)" by (rule sin_x_le_x) simp
  ultimately show False using sin_30 by linarith
qed

section \<open>Sampling\<close>

lemma linspace_sample_Fin:
  "linspace_sample (Fin a) (Fin b) 50 i = Fin (a + real i * ((b - a) / 49))"
  by (simp add: linspace_sample_def Let_def fsub_def)

lemma np_linspace_Fin:
  "np_linspace (Fin a) (Fin b) 50 = map (\<lambda>i. Fin (a + real i * ((b - a) / 49))) [0 ..< 50]"
proof (rule nth_equalityI)
  show "length (np_linspace (Fin a) (Fin b) 50)
      = length (map (\<lambda>i. Fin (a + real i * ((b - a) / 49))) [0 ..< 50])"
    by (simp add: np_linspace_def)
next
  fix i assume "i < length (np_linspace (Fin a) (Fin b) 50)"
  then have i: "i < 50" by (simp add: np_linspace_def)
  show "np_linspace (Fin a) (Fin b) 50 ! i
      = map (\<lambda>i. Fin (a + real i * ((b - a) / 49))) [0 ..< 50] ! i"
  proof (cases "i = 49")
    case True
    then show ?thesis by (simp add: np_linspace_def field_simps)
  next
    case False
    with i show ?thesis
      by (simp add: np_linspace_def linspace_sample_Fin del: upt.simps)
  qed
qed


lemma hd_np_linspace_Fin: "hd (np_linspace (Fin a) (Fin b) 50) = Fin a"
  by (simp add: np_linspace_Fin hd_map del: upt.simps)

lemma last_np_linspace_Fin: "last (np_linspace (Fin a) (Fin b) 50) = Fin b"
  by (simp add: np_linspace_Fin last_map field_simps del: upt.simps)

lemma length_np_linspace [simp]: "length (np_linspace a b n) = n"
  by (simp add: np_linspace_def)

section \<open>The DC engine, field by field\<close>

lemma dc_sweep_eq:
  "dc_sweep V Va Ra Ke Kt ns (a, b, c, d) =
     (a @ map (\<lambda>n. fst (dc_sample V Va Ra Ke Kt n)) ns,
      b @ map (\<lambda>n. fst (snd (dc_sample V Va Ra Ke Kt n))) ns,
      c @ map (\<lambda>n. fst (snd (snd (dc_sample V Va Ra Ke Kt n)))) ns,
      d @ map (\<lambda>n. snd (snd (snd (dc_sample V Va Ra Ke Kt n)))) ns)"
  by (induction ns arbitrary: a b c d) (auto split: prod.splits)

lemma dc_raises_iff:
  "(\<exists>e. simulate_dc_motor pv = Inl e) \<longleftrightarrow>
     get_parameter_value pv ''field_resistance'' (Fin 100) = Fin 0 \<or>
     get_parameter_value pv ''armature_resistance'' (Fin 1.5) = Fin 0"
  unfolding simulate_dc_motor_def Let_def
  by (simp add: py_div_def dc_sweep_eq)

lemma dc_fields:
  assumes "simulate_dc_motor pv = Inr r"
  defines "V \<equiv> get_parameter_value pv ''rated_voltage'' (Fin 220)"
    and "Ra \<equiv> get_parameter_value pv ''armature_resistance'' (Fin 1.5)"
    and "Rf \<equiv> get_parameter_value pv ''field_resistance'' (Fin 100)"
    and "Ke \<equiv> get_parameter_value pv ''back_emf_constant'' (Fin 0.8)"
    and "Kt \<equiv> get_parameter_value pv ''torque_constant'' (Fin 0.8)"
    and "T_load \<equiv> get_parameter_value pv ''load_torque'' (Fin 10)"
    and "N_rated \<equiv> get_parameter_value pv ''rated_speed'' (Fin 1500)"
  shows "armature_current r =
           np_div (fsub V (fmul Ke (np_div (fmul (fmul N_rated (Fin 2)) (Fin pi)) (Fin 60)))) Ra"
    and "developed_torque r = fmul Kt (armature_current r)"
    and "input_power r = fmul V (armature_current r)"
    and "speed_rpm r =
           fmul N_rated (fsub (Fin 1)
             (fmul (if fgt (developed_torque r) (Fin 0)
                    then np_div T_load (developed_torque r) else Fin 0) (Fin 0.1)))"
    and "speed_rad_s r = np_div (fmul (fmul (speed_rpm r) (Fin 2)) (Fin pi)) (Fin 60)"
    and "output_power r = fmul T_load (speed_rad_s r)"
    and "efficiency r =
           (if fgt (input_power r) (Fin 0)
            then fmul (np_div (output_power r) (input_power r)) (Fin 100) else Fin 0)"
    and "speed_range r = np_linspace (Fin 0) (fmul N_rated (Fin 1.2)) 50"
    and "torque_curve r = map (\<lambda>n. fst (dc_sample V V Ra Ke Kt n)) (speed_range r)"
    and "current_curve r = map (\<lambda>n. fst (snd (dc_sample V V Ra Ke Kt n))) (speed_range r)"
    and "power_curve r = map (\<lambda>n. fst (snd (snd (dc_sample V V Ra Ke Kt n)))) (speed_range r)"
    and "efficiency_curve r = map (\<lambda>n. snd (snd (snd (dc_sample V V Ra Ke Kt n)))) (speed_range r)"
    and "input_voltage r = V"
proof -
  have nz: "Rf \<noteq> Fin 0" "Ra \<noteq> Fin 0"
    using dc_raises_iff [of pv] assms(1) unfolding Rf_def Ra_def by auto
  have r: "Inr r = simulate_dc_motor pv" using assms(1) by simp
  show "armature_current r =
           np_div (fsub V (fmul Ke (np_div (fmul (fmul N_rated (Fin 2)) (Fin pi)) (Fin 60)))) Ra"
    and "developed_torque r = fmul Kt (armature_current r)"
    and "input_power r = fmul V (armature_current r)"
    and "speed_rpm r =
           fmul N_rated (fsub (Fin 1)
             (fmul (if fgt (developed_torque r) (Fin 0)
                    then np_div T_load (developed_torque r) else Fin 0) (Fin 0.1)))"
    and "speed_rad_s r = np_div (fmul (fmul (speed_rpm r) (Fin 2)) (Fin pi)) (Fin 60)"
    and "output_power r = fmul T_load (speed_rad_s r)"
    and "efficiency r =
           (if fgt (input_power r) (Fin 0)
            then fmul (np_div (output_power r) (input_power r)) (Fin 100) else Fin 0)"
    and "speed_range r = np_linspace (Fin 0) (fmul N_rated (Fin 1.2)) 50"
    and "torque_curve r = map (\<lambda>n. fst (dc_sample V V Ra Ke Kt n)) (speed_range r)"
    and "current_curve r = map (\<lambda>n. fst (snd (dc_sample V V Ra Ke Kt n))) (speed_range r)"
    and "power_curve r = map (\<lambda>n. fst (snd (snd (dc_sample V V Ra Ke Kt n)))) (speed_range r)"
    and "efficiency_curve r = map (\<lambda>n. snd (snd (snd (dc_sample V V Ra Ke Kt n)))) (speed_range r)"
    and "input_voltage r = V"
    using nz r
    unfolding simulate_dc_motor_def Let_def V_def Ra_def Rf_def Ke_def Kt_def T_load_def N_rated_def
    by (simp_all add: dc_sweep_eq py_div_def)
qed

section \<open>The AC engine, field by field\<close>

lemma fpow2_cases: "fpow2 x = NaN \<or> fpow2 x = PInf \<or> (\<exists>a. 0 \<le> a \<and> fpow2 x = Fin a)"
  by (cases x) (auto simp: fpow2_def)

lemma py_sqrt_sum_squares: "\<exists>z. py_sqrt (fadd (fpow2 x) (fpow2 y)) = Inr z"
  using fpow2_cases [of x] fpow2_cases [of y] by auto

lemma Z_of_Inr: "\<exists>z. Z_of Rs Rp X1 X2 = Inr z"
  unfolding Z_of_def by (rule py_sqrt_sum_squares)

lemma ac_sample_Inr: "\<exists>t. ac_sample V Vph Rs Rr X1 X2 Ns w s = Inr t"
proof -
  obtain z where "py_sqrt (fadd (fpow2 (fadd Rs (if fgt s (Fin 0) then np_div Rr s else PInf)))
      (fpow2 (fadd X1 X2))) = Inr z"
    using py_sqrt_sum_squares by blast
  then show ?thesis unfolding ac_sample_def Let_def by simp
qed

lemma ac_sweep_eq:
  "ac_sweep V Vph Rs Rr X1 X2 Ns w ns (a, b, c, d) =
     Inr (a @ map (\<lambda>s. fst (projr (ac_sample V Vph Rs Rr X1 X2 Ns w s))) ns,
          b @ map (\<lambda>s. fst (snd (projr (ac_sample V Vph Rs Rr X1 X2 Ns w s)))) ns,
          c @ map (\<lambda>s. fst (snd (snd (projr (ac_sample V Vph Rs Rr X1 X2 Ns w s))))) ns,
          d @ map (\<lambda>s. snd (snd (snd (projr (ac_sample V Vph Rs Rr X1 X2 Ns w s))))) ns)"
proof (induction ns arbitrary: a b c d)
  case Nil
  then show ?case by simp
next
  case (Cons s ns)
  obtain t where t: "ac_sample V Vph Rs Rr X1 X2 Ns w s = Inr t"
    using ac_sample_Inr by blast
  obtain t1 t2 t3 t4 where "t = (t1, t2, t3, t4)" by (cases t) auto
  with t Cons show ?case by simp
qed

lemma fmul_sqrt3_zero: "fmul I_m (Fin (sqrt 3)) = Fin 0 \<longleftrightarrow> I_m = Fin 0"
  by (cases I_m) (auto simp: inf_signed_def)

lemma ac_raises_iff:
  "(\<exists>e. simulate_ac_motor pv = Inl e) \<longleftrightarrow>
     (\<exists>e. py_int (get_parameter_value pv ''poles'' (Fin 4)) = Inl e) \<or>
     py_int (get_parameter_value pv ''poles'' (Fin 4)) = Inr 0 \<or>
     get_parameter_value pv ''magnetizing_current'' (Fin 3.0) = Fin 0"
proof -
  show ?thesis
  proof (cases "py_int (get_parameter_value pv ''poles'' (Fin 4))")
    case (Inl e)
    then show ?thesis unfolding simulate_ac_motor_def Let_def by simp
  next
    case (Inr P)
    obtain z where "Z_of (get_parameter_value pv ''stator_resistance'' (Fin 1.2))
       (Rr_prime_of (get_parameter_value pv ''rotor_resistance'' (Fin 0.8))
          (np_div (get_parameter_value pv ''slip'' (Fin 3.0)) (Fin 100)))
       (fmul (Fin 0.1) (np_div (get_parameter_value pv ''rated_voltage'' (Fin 220))
           (fmul (get_parameter_value pv ''magnetizing_current'' (Fin 3.0)) (Fin (sqrt 3)))))
       (fmul (Fin 0.1) (np_div (get_parameter_value pv ''rated_voltage'' (Fin 220))
           (fmul (get_parameter_value pv ''magnetizing_current'' (Fin 3.0)) (Fin (sqrt 3))))) = Inr z"
      using Z_of_Inr by blast
    with Inr show ?thesis unfolding simulate_ac_motor_def Let_def
      by (simp add: py_div_def ac_sweep_eq fmul_sqrt3_zero)
  qed
qed

lemma ac_fields:
  assumes "simulate_ac_motor pv = Inr r"
  defines "V \<equiv> get_parameter_value pv ''rated_voltage'' (Fin 220)"
    and "f \<equiv> get_parameter_value pv ''frequency'' (Fin 50)"
    and "Rs \<equiv> get_parameter_value pv ''stator_resistance'' (Fin 1.2)"
    and "Rr \<equiv> get_parameter_value pv ''rotor_resistance'' (Fin 0.8)"
    and "I_m \<equiv> get_parameter_value pv ''magnetizing_current'' (Fin 3.0)"
    and "s \<equiv> np_div (get_parameter_value pv ''slip'' (Fin 3.0)) (Fin 100)"
  defines "X \<equiv> fmul (Fin 0.1) (np_div V (fmul I_m (Fin (sqrt 3))))"
    and "Vph \<equiv> np_div V (Fin (sqrt 3))"
  defines "w \<equiv> np_div (fmul (fmul (synchronous_speed r) (Fin 2)) (Fin pi)) (Fin 60)"
  shows "py_int (get_parameter_value pv ''poles'' (Fin 4)) = Inr (poles r)"
    and "poles r \<noteq> 0"
    and "I_m \<noteq> Fin 0"
    and "synchronous_speed r = np_div (fmul (Fin 120) f) (Fin (of_int (poles r)))"
    and "\<exists>Z. Z_of Rs (Rr_prime_of Rr s) X X = Inr Z
           \<and> stator_current r = (if fgt Z (Fin 0) then np_div Vph Z else Fin 0)
           \<and> power_factor r =
               (if fgt Z (Fin 0) then np_div (fadd Rs (Rr_prime_of Rr s)) Z else Fin 0)"
    and "input_power r =
           fmul (fmul (fmul (Fin (sqrt 3)) V) (stator_current r)) (power_factor r)"
    and "efficiency r =
           (if fgt (input_power r) (Fin 0)
            then fmul (np_div (output_power r) (input_power r)) (Fin 100) else Fin 0)"
    and "total_loss r = fsub (input_power r) (output_power r)"
    and "temp_rise r = fmul (total_loss r) (Fin 6)"
    and "operating_temp r =
           fadd (get_parameter_value pv ''ambient_temp'' (Fin 40)) (temp_rise r)"
    and "speed_range r =
           map (\<lambda>s_val. fmul (synchronous_speed r) (fsub (Fin 1) s_val))
             (np_linspace (Fin 0.001) (Fin 1.0) 50)"
    and "torque_curve r =
           map (\<lambda>s. fst (projr (ac_sample V Vph Rs Rr X X (synchronous_speed r) w s)))
             (np_linspace (Fin 0.001) (Fin 1.0) 50)"
    and "current_curve r =
           map (\<lambda>s. fst (snd (projr (ac_sample V Vph Rs Rr X X (synchronous_speed r) w s))))
             (np_linspace (Fin 0.001) (Fin 1.0) 50)"
    and "power_curve r =
           map (\<lambda>s. fst (snd (snd (projr (ac_sample V Vph Rs Rr X X (synchronous_speed r) w s)))))
             (np_linspace (Fin 0.001) (Fin 1.0) 50)"
    and "efficiency_curve r =
           map (\<lambda>s. snd (snd (snd (projr (ac_sample V Vph Rs Rr X X (synchronous_speed r) w s)))))
             (np_linspace (Fin 0.001) (Fin 1.0) 50)"
    and "input_current r = fmul (stator_current r) (Fin (sqrt 3))"
proof -
  obtain P where P: "py_int (get_parameter_value pv ''poles'' (Fin 4)) = Inr P"
    using assms(1) unfolding simulate_ac_motor_def Let_def
    by (cases "py_int (get_parameter_value pv ''poles'' (Fin 4))") auto
  have P0: "P \<noteq> 0"
    using assms(1) P unfolding simulate_ac_motor_def Let_def
    by (auto simp: py_div_def)
  have Im0: "fmul I_m (Fin (sqrt 3)) \<noteq> Fin 0"
    using assms(1) P P0 unfolding simulate_ac_motor_def Let_def I_m_def
    by (auto simp: py_div_def)
  obtain Z where Z: "Z_of Rs (Rr_prime_of Rr s) X X = Inr Z"
    using Z_of_Inr by blast
  have r: "Inr r = simulate_ac_motor pv" using assms(1) by simp
  note defs = V_def f_def Rs_def Rr_def I_m_def s_def X_def Vph_def w_def
  have rr: "r = projr (simulate_ac_motor pv)" using assms(1) by simp
  show "py_int (get_parameter_value pv ''poles'' (Fin 4)) = Inr (poles r)"
    and "poles r \<noteq> 0"
    and "I_m \<noteq> Fin 0"
    and "synchronous_speed r = np_div (fmul (Fin 120) f) (Fin (of_int (poles r)))"
    and "\<exists>Z. Z_of Rs (Rr_prime_of Rr s) X X = Inr Z
           \<and> stator_current r = (if fgt Z (Fin 0) then np_div Vph Z else Fin 0)
           \<and> power_factor r =
               (if fgt Z (Fin 0) then np_div (fadd Rs (Rr_prime_of Rr s)) Z else Fin 0)"
    and "input_power r =
           fmul (fmul (fmul (Fin (sqrt 3)) V) (stator_current r)) (power_factor r)"
    and "efficiency r =
           (if fgt (input_power r) (Fin 0)
            then fmul (np_div (output_power r) (input_power r)) (Fin 100) else Fin 0)"
    and "total_loss r = fsub (input_power r) (output_power r)"
    and "temp_rise r = fmul (total_loss r) (Fin 6)"
    and "operating_temp r =
           fadd (get_parameter_value pv ''ambient_temp'' (Fin 40)) (temp_rise r)"
    and "speed_range r =
           map (\<lambda>s_val. fmul (synchronous_speed r) (fsub (Fin 1) s_val))
             (np_linspace (Fin 0.001) (Fin 1.0) 50)"
    and "torque_curve r =
           map (\<lambda>s. fst (projr (ac_sample V Vph Rs Rr X X (synchronous_speed r) w s)))
             (np_linspace (Fin 0.001) (Fin 1.0) 50)"
    and "current_curve r =
           map (\<lambda>s. fst (snd (projr (ac_sample V Vph Rs Rr X X (synchronous_speed r) w s))))
             (np_linspace (Fin 0.001) (Fin 1.0) 50)"
    and "power_curve r =
           map (\<lambda>s. fst (snd (snd (projr (ac_sample V Vph Rs Rr X X (synchronous_speed r) w s)))))
             (np_linspace (Fin 0.001) (Fin 1.0) 50)"
    and "efficiency_curve r =
           map (\<lambda>s. snd (snd (snd (projr (ac_sample V Vph Rs Rr X X (synchronous_speed r) w s)))))
             (np_linspace (Fin 0.001) (Fin 1.0) 50)"
    and "input_current r = fmul (stator_current r) (Fin (sqrt 3))"
    using P P0 Im0 Z fmul_sqrt3_zero [of I_m]
    unfolding rr defs simulate_ac_motor_def Let_def
    by (simp_all add: ac_sweep_eq py_div_def)
qed

section \<open>When the engines return\<close>

lemma dc_returns_iff:
  "(\<exists>r. simulate_dc_motor pv = Inr r) \<longleftrightarrow>
     get_parameter_value pv ''field_resistance'' (Fin 100) \<noteq> Fin 0 \<and>
     get_parameter_value pv ''armature_resistance'' (Fin 1.5) \<noteq> Fin 0"
  using dc_raises_iff [of pv] by (cases "simulate_dc_motor pv") auto

lemma ac_returns_iff:
  "(\<exists>r. simulate_ac_motor pv = Inr r) \<longleftrightarrow>
     (\<exists>P. py_int (get_parameter_value pv ''poles'' (Fin 4)) = Inr P \<and> P \<noteq> 0) \<and>
     get_parameter_value pv ''magnetizing_current'' (Fin 3.0) \<noteq> Fin 0"
  using ac_raises_iff [of pv]
  by (cases "simulate_ac_motor pv"; cases "py_int (get_parameter_value pv ''poles'' (Fin 4))") auto

lemma default_lookups:
  "get_parameter_value default_param_vars ''rated_voltage'' d = Fin 220"
  "get_parameter_value default_param_vars ''armature_resistance'' d = Fin 1.5"
  "get_parameter_value default_param_vars ''field_resistance'' d = Fin 100"
  "get_parameter_value default_param_vars ''back_emf_constant'' d = Fin 0.8"
  "get_parameter_value default_param_vars ''torque_constant'' d = Fin 0.8"
  "get_parameter_value default_param_vars ''load_torque'' d = Fin 10"
  "get_parameter_value default_param_vars ''rated_speed'' d = Fin 1500"
  "get_parameter_value default_param_vars ''ambient_temp'' d = Fin 40"
  "get_parameter_value default_param_vars ''frequency'' d = Fin 50"
  "get_parameter_value default_param_vars ''poles'' d = Fin 4"
  "get_parameter_value default_param_vars ''stator_resistance'' d = Fin 1.2"
  "get_parameter_value default_param_vars ''rotor_resistance'' d = Fin 0.8"
  "get_parameter_value default_param_vars ''magnetizing_current'' d = Fin 3.0"
  "get_parameter_value default_param_vars ''slip'' d = Fin 3.0"
  by (simp_all add: default_param_vars_def)

section \<open>The curves\<close>



section \<open>Synchronous speed\<close>



section \<open>The speed axis\<close>

lemma dc_speed_range_Fin:
  assumes "simulate_dc_motor pv = Inr r"
    and "get_parameter_value pv ''rated_speed'' (Fin 1500) = Fin n"
  shows "speed_range r = map (\<lambda>i. Fin (real i * (n * 1.2 / 49))) [0 ..< 50]"
  using dc_fields(8) [OF assms(1)] assms(2) by (simp add: np_linspace_Fin del: upt.simps)


lemma get_parameter_value_upd:
  "get_parameter_value (pv(k \<mapsto> Numeric v)) k' d
     = (if k' = k then v else get_parameter_value pv k' d)"
  by (simp add: get_parameter_value_def param_float_def)






section \<open>The DC operating point\<close>

lemma dc_point_Fin:
  assumes d: "simulate_dc_motor pv = Inr d"
    and V: "get_parameter_value pv ''rated_voltage'' (Fin 220) = Fin v"
    and Ra: "get_parameter_value pv ''armature_resistance'' (Fin 1.5) = Fin ra"
    and Ke: "get_parameter_value pv ''back_emf_constant'' (Fin 0.8) = Fin ke"
    and Kt: "get_parameter_value pv ''torque_constant'' (Fin 0.8) = Fin kt"
    and TL: "get_parameter_value pv ''load_torque'' (Fin 10) = Fin tq"
    and N: "get_parameter_value pv ''rated_speed'' (Fin 1500) = Fin n"
  defines "ia \<equiv> (v - ke * (n * 2 * pi / 60)) / ra"
  defines "w \<equiv> n * (1 - tq / (kt * ia) * 0.1) * 2 * pi / 60"
  assumes td: "0 < kt * ia" and pin: "0 < v * ia"
  shows "armature_current d = Fin ia"
    and "developed_torque d = Fin (kt * ia)"
    and "input_power d = Fin (v * ia)"
    and "speed_rad_s d = Fin w"
    and "output_power d = Fin (tq * w)"
    and "efficiency d = Fin (tq * w / (v * ia) * 100)"
proof -
  note f = dc_fields [OF d, unfolded V Ra Ke Kt TL N]
  have ra0: "ra \<noteq> 0"
    using dc_raises_iff [of pv] d Ra by auto
  show 1: "armature_current d = Fin ia"
    using ra0 by (simp add: f(1) fsub_def ia_def)
  show 2: "developed_torque d = Fin (kt * ia)"
    by (simp add: f(2) 1)
  show 3: "input_power d = Fin (v * ia)"
    by (simp add: f(3) 1)
  have nz: "kt \<noteq> 0" "ia \<noteq> 0" "v \<noteq> 0"
    using td pin by auto
  have 4: "speed_rpm d = Fin (n * (1 - tq / (kt * ia) * 0.1))"
    using td nz by (simp add: f(4) 2 fgt_def fsub_def)
  show 5: "speed_rad_s d = Fin w"
    by (simp add: f(5) 4 w_def)
  show 6: "output_power d = Fin (tq * w)"
    by (simp add: f(6) 5)
  show "efficiency d = Fin (tq * w / (v * ia) * 100)"
    using pin nz by (simp add: f(7) 3 6 fgt_def)
qed




section \<open>Efficiency\<close>

lemma py_min_100: "\<not> fgt (py_min e (Fin 100)) (Fin 100)"
  by (cases e) (auto simp: py_min_def fgt_def)

lemma not_fgt_iff: "\<not> fgt e (Fin 100) \<longleftrightarrow> e = NaN \<or> fle e (Fin 100)"
  by (cases e) (auto simp: fgt_def fle_def)

lemma dc_sample_eff: "\<exists>e. snd (snd (snd (dc_sample V Va Ra Ke Kt n))) = py_min e (Fin 100)"
  by (simp add: dc_sample_def Let_def) blast

lemma ac_sample_eff:
  "\<exists>e. snd (snd (snd (projr (ac_sample V Vph Rs Rr X1 X2 Ns w s)))) = py_min e (Fin 100)"
proof -
  obtain z where "py_sqrt (fadd (fpow2 (fadd Rs (if fgt s (Fin 0) then np_div Rr s else PInf)))
      (fpow2 (fadd X1 X2))) = Inr z"
    using py_sqrt_sum_squares by blast
  then show ?thesis unfolding ac_sample_def Let_def by simp blast
qed

lemma default_armature_current_bounds:
  fixes ia :: real
  assumes "ia = (220 - 0.8 * (1500 * 2 * pi / 60)) / 1.5"
  shows "61 \<le> ia" and "ia \<le> 67"
  using pi_ge_3 pi_le_3_2 unfolding assms by simp_all

lemma overload_150:
  fixes ia w :: real
  assumes ia: "ia = (220 - 0.8 * (1500 * 2 * pi / 60)) / 1.5"
    and w: "w = 1500 * (1 - 150 / (0.8 * ia) * 0.1) * 2 * pi / 60"
  shows "100 < 150 * w / (220 * ia) * 100"
proof -
  note b = default_armature_current_bounds [OF ia]
  have q: "150 / (0.8 * ia) * 0.1 \<le> 0.31"
    using b by (simp add: field_simps)
  define c :: real where "c = 1 - 150 / (0.8 * ia) * 0.1"
  have c: "0.69 \<le> c" using q unfolding c_def by simp
  have "0.69 * 3 \<le> c * pi"
    by (rule mult_mono) (use c pi_ge_3 in simp_all)
  moreover have "w = 50 * (c * pi)" unfolding w c_def [symmetric] by simp
  ultimately have "103.5 \<le> w" by simp
  then have "220 * ia < 150 * w" using b by linarith
  moreover have "0 < 220 * ia" using b by simp
  ultimately have "1 < 150 * w / (220 * ia)" by simp
  then show ?thesis by simp
qed

lemma overload_600:
  fixes ia w :: real
  assumes ia: "ia = (220 - 0.8 * (1500 * 2 * pi / 60)) / 1.5"
    and w: "w = 1500 * (1 - 600 / (0.8 * ia) * 0.1) * 2 * pi / 60"
  shows "600 * w / (220 * ia) * 100 < 0"
proof -
  note b = default_armature_current_bounds [OF ia]
  have q: "1 < 600 / (0.8 * ia) * 0.1"
    using b by (simp add: field_simps)
  define c :: real where "c = 1 - 600 / (0.8 * ia) * 0.1"
  have c: "c < 0" using q unfolding c_def by simp
  have "c * pi < 0"
    by (rule mult_neg_pos) (use c in simp_all)
  moreover have "w = 50 * (c * pi)" unfolding w c_def [symmetric] by simp
  ultimately have "w < 0" by (simp add: mult.commute)
  moreover have "0 < 220 * ia" using b by simp
  ultimately have "600 * w / (220 * ia) < 0"
    by (simp add: divide_neg_pos)
  then show ?thesis by simp
qed

lemma dc_sample_Fin:
  fixes v ra ke kt n :: real
  defines "om \<equiv> n * 2 * pi / 60"
  defines "ia \<equiv> (v - ke * om) / ra"
  assumes "ra \<noteq> 0" and "0 < ia" and "0 < v * ia"
  shows "dc_sample (Fin v) (Fin v) (Fin ra) (Fin ke) (Fin kt) (Fin n)
     = (Fin (kt * ia), Fin ia, Fin (kt * ia * om),
        py_min (Fin (kt * ia * om / (v * ia) * 100)) (Fin 100))"
proof -
  have o: "np_div (fmul (fmul (Fin n) (Fin 2)) (Fin pi)) (Fin 60) = Fin om"
    by (simp add: om_def)
  have i: "py_max (Fin 0) (np_div (fsub (Fin v) (fmul (Fin ke) (Fin om))) (Fin ra)) = Fin ia"
    using assms(3,4) by (simp add: py_max_def fgt_def fsub_def ia_def)
  have nz: "v \<noteq> 0" "ia \<noteq> 0" using assms(5) by auto
  show ?thesis
    unfolding dc_sample_def Let_def o i using assms(5) nz
    by (simp add: fgt_def)
qed

lemma reverse_sample:
  fixes om ia :: real
  assumes "om = - (1800 / 49) * 2 * pi / 60"
    and "ia = (220 - 0.8 * om) / 1.5"
  shows "0 < ia" and "0.8 * ia * om / (220 * ia) * 100 < 0"
proof -
  have om: "om < 0" unfolding assms(1) by simp
  then show ia: "0 < ia" unfolding assms(2) by simp
  have "0.8 * ia * om < 0"
    using om ia by (simp add: mult_pos_neg)
  moreover have "0 < 220 * ia" using ia by simp
  ultimately have "0.8 * ia * om / (220 * ia) < 0"
    by (rule divide_neg_pos)
  then show "0.8 * ia * om / (220 * ia) * 100 < 0" by simp
qed

lemma ac_sample_standstill:
  fixes v vph rs rr x s :: real
  assumes "0 < v" "0 < vph" "0 \<le> rs" "0 < rr" "0 < s"
  shows "\<exists>i. ac_sample (Fin v) (Fin vph) (Fin rs) (Fin rr) (Fin x) (Fin x) (Fin 0) (Fin 0) (Fin s)
     = Inr (PInf, i, NaN, NaN)"
proof -
  define a where "a = rs + rr / s"
  define b where "b = x + x"
  define c where "c = a * a + b * b"
  have a: "0 < a" unfolding a_def using assms by (simp add: add_nonneg_pos)
  have c: "0 < c" unfolding c_def using a by (simp add: add_pos_nonneg)
  have s: "fgt (Fin s) (Fin 0)" using assms(5) by (simp add: fgt_def)
  have R: "np_div (Fin rr) (Fin s) = Fin (rr / s)" using assms(5) by simp
  have A: "fadd (Fin rs) (Fin (rr / s)) = Fin a" by (simp add: a_def)
  have B: "fadd (Fin x) (Fin x) = Fin b" by (simp only: fadd.simps b_def)
  have C: "fadd (fpow2 (Fin a)) (fpow2 (Fin b)) = Fin c" by (simp add: fpow2_def c_def)
  have sq: "py_sqrt (Fin c) = Inr (Fin (sqrt c))" using c by simp
  have z: "fgt (Fin (sqrt c)) (Fin 0)" using c by (simp add: fgt_def)
  have T: "np_div (np_div (fmul (fmul (Fin 3) (fpow2 (Fin vph))) (Fin rr)) (Fin s))
      (fmul (Fin 0) (Fin c)) = PInf"
    using assms by (simp add: fpow2_def inf_signed_def)
  have pin: "fgt (fmul (fmul (fmul (Fin (sqrt 3)) (Fin v)) (np_div (Fin vph) (Fin (sqrt c))))
      (np_div (Fin a) (Fin (sqrt c)))) (Fin 0)"
    using assms a c by (simp add: fgt_def)
  have pout: "np_div (fmul (fmul (fmul (fmul PInf (Fin 0)) (fsub (Fin 1) (Fin s))) (Fin 2)) (Fin pi))
      (Fin 60) = NaN"
    by (simp add: inf_signed_def fsub_def)
  show ?thesis
    unfolding ac_sample_def Let_def if_P [OF s] R A B C sq sum.case if_P [OF z] T pout
      if_P [OF pin]
    by (simp add: py_min_def)
qed


lemma standstill_efficiency_sample:
  "\<exists>a. simulate_ac_motor (default_param_vars(''frequency'' \<mapsto> Numeric (Fin 0))) = Inr a
      \<and> efficiency_curve a ! 0 = NaN"
proof -
  let ?pv = "default_param_vars(''frequency'' \<mapsto> Numeric (Fin 0))"
  have l: "get_parameter_value ?pv ''poles'' (Fin 4) = Fin 4"
    "get_parameter_value ?pv ''magnetizing_current'' (Fin 3.0) = Fin 3.0"
    "get_parameter_value ?pv ''frequency'' (Fin 50) = Fin 0"
    "get_parameter_value ?pv ''rated_voltage'' (Fin 220) = Fin 220"
    "get_parameter_value ?pv ''stator_resistance'' (Fin 1.2) = Fin 1.2"
    "get_parameter_value ?pv ''rotor_resistance'' (Fin 0.8) = Fin 0.8"
    by (simp_all add: get_parameter_value_upd default_lookups)
  obtain a where a: "simulate_ac_motor ?pv = Inr a"
    using ac_returns_iff [of ?pv] l by auto
  note f = ac_fields(1,4,15) [OF a, unfolded l]
  from f(1) have "poles a = 4" by simp
  with f(2) have ns: "synchronous_speed a = Fin 0" by simp
  have w: "np_div (fmul (fmul (Fin 0) (Fin 2)) (Fin pi)) (Fin 60) = Fin 0" by simp
  have vph: "np_div (Fin 220) (Fin (sqrt 3)) = Fin (220 / sqrt 3)" by simp
  have x: "fmul (Fin 0.1) (np_div (Fin 220) (fmul (Fin 3.0) (Fin (sqrt 3))))
      = Fin (0.1 * (220 / (3.0 * sqrt 3)))"
    by simp
  have s0: "np_linspace (Fin 0.001) (Fin 1.0) 50 ! 0 = Fin 0.001"
    by (simp add: np_linspace_Fin del: upt.simps)
  obtain i where i: "ac_sample (Fin 220) (Fin (220 / sqrt 3)) (Fin 1.2) (Fin 0.8)
      (Fin (0.1 * (220 / (3.0 * sqrt 3)))) (Fin (0.1 * (220 / (3.0 * sqrt 3))))
      (Fin 0) (Fin 0) (Fin 0.001) = Inr (PInf, i, NaN, NaN)"
    using ac_sample_standstill [of 220 "220 / sqrt 3" "1.2" "0.8" "0.001"
        "0.1 * (220 / (3.0 * sqrt 3))"]
    by auto
  have "efficiency_curve a ! 0
      = snd (snd (snd (projr (ac_sample (Fin 220) (np_div (Fin 220) (Fin (sqrt 3)))
          (Fin 1.2) (Fin 0.8)
          (fmul (Fin 0.1) (np_div (Fin 220) (fmul (Fin 3.0) (Fin (sqrt 3)))))
          (fmul (Fin 0.1) (np_div (Fin 220) (fmul (Fin 3.0) (Fin (sqrt 3)))))
          (synchronous_speed a)
          (np_div (fmul (fmul (synchronous_speed a) (Fin 2)) (Fin pi)) (Fin 60))
          (np_linspace (Fin 0.001) (Fin 1.0) 50 ! 0)))))"
    by (subst f(3), rule nth_map) simp
  then have "efficiency_curve a ! 0 = NaN"
    unfolding ns w vph x s0 i by simp
  with a show ?thesis by blast
qed

text \<open>
  C1 (amended). In every bundle either engine returns, no sample of the efficiency curve
  exceeds 100: each sample is the loop's efficiency cut with \<^verbatim>\<open>min(eff, 100)\<close>, so
  it is at most 100 or not a number. The efficiency of the operating point is output
  power over input power times 100 when the input power is positive, and 0 otherwise; it
  is not cut at 100.
\<close>

theorem efficiency_bounds:
  "(\<forall>r. simulate_dc_motor pv = Inr r \<longrightarrow>
      (\<forall>e \<in> set (efficiency_curve r). e = NaN \<or> fle e (Fin 100))
      \<and> efficiency r =
          (if fgt (input_power r) (Fin 0)
           then fmul (np_div (output_power r) (input_power r)) (Fin 100) else Fin 0))
   \<and> (\<forall>r. simulate_ac_motor pv = Inr r \<longrightarrow>
      (\<forall>e \<in> set (efficiency_curve r). e = NaN \<or> fle e (Fin 100))
      \<and> efficiency r =
          (if fgt (input_power r) (Fin 0)
           then fmul (np_div (output_power r) (input_power r)) (Fin 100) else Fin 0))"
proof (intro conjI allI impI ballI)
  fix r e assume r: "simulate_dc_motor pv = Inr r" and e: "e \<in> set (efficiency_curve r)"
  from e obtain x where "e = py_min x (Fin 100)"
    unfolding dc_fields(12) [OF r] using dc_sample_eff by fastforce
  then show "e = NaN \<or> fle e (Fin 100)"
    using py_min_100 not_fgt_iff by simp
next
  fix r assume r: "simulate_dc_motor pv = Inr r"
  show "efficiency r =
          (if fgt (input_power r) (Fin 0)
           then fmul (np_div (output_power r) (input_power r)) (Fin 100) else Fin 0)"
    by (rule dc_fields(7) [OF r])
next
  fix r e assume r: "simulate_ac_motor pv = Inr r" and e: "e \<in> set (efficiency_curve r)"
  from e obtain x where "e = py_min x (Fin 100)"
    unfolding ac_fields(15) [OF r] using ac_sample_eff by fastforce
  then show "e = NaN \<or> fle e (Fin 100)"
    using py_min_100 not_fgt_iff by simp
next
  fix r assume r: "simulate_ac_motor pv = Inr r"
  show "efficiency r =
          (if fgt (input_power r) (Fin 0)
           then fmul (np_div (output_power r) (input_power r)) (Fin 100) else Fin 0)"
    by (rule ac_fields(7) [OF r])
qed


theorem efficiency_bounds_witness:
  "\<exists>d a. simulate_dc_motor default_param_vars = Inr d
     \<and> simulate_ac_motor default_param_vars = Inr a
     \<and> (efficiency_curve d ! 10 = NaN \<or> fle (efficiency_curve d ! 10) (Fin 100))
     \<and> (efficiency_curve a ! 10 = NaN \<or> fle (efficiency_curve a ! 10) (Fin 100))"
proof -
  obtain d where d: "simulate_dc_motor default_param_vars = Inr d"
    using dc_returns_iff [of default_param_vars] by (auto simp: default_lookups)
  obtain a where a: "simulate_ac_motor default_param_vars = Inr a"
    using ac_returns_iff [of default_param_vars] by (auto simp: default_lookups)
  have "length (efficiency_curve d) = 50"
    by (simp add: dc_fields(12) [OF d] dc_fields(8) [OF d])
  then have md: "efficiency_curve d ! 10 \<in> set (efficiency_curve d)" by simp
  have "length (efficiency_curve a) = 50"
    by (simp add: ac_fields(15) [OF a])
  then have ma: "efficiency_curve a ! 10 \<in> set (efficiency_curve a)" by simp
  note t = efficiency_bounds [of default_param_vars]
  from t d md have "efficiency_curve d ! 10 = NaN \<or> fle (efficiency_curve d ! 10) (Fin 100)"
    by blast
  moreover from t a ma
  have "efficiency_curve a ! 10 = NaN \<or> fle (efficiency_curve a ! 10) (Fin 100)"
    by blast
  ultimately show ?thesis using d a by blast
qed

text \<open>
  The claim as stated fails: with the start-up store and a load torque of 150 the DC
  operating point has positive input power and an efficiency above 100; with a load
  torque of 600 it has positive input power and a negative efficiency; and with a rated
  speed of -1500 the second sample of the DC efficiency curve is negative although the
  input power of that sample, voltage times current, is positive. With a frequency of 0
  the synchronous speed is 0, the torque of the first slip sample is a division by zero,
  an infinity for numpy, and the first sample of the AC efficiency curve is not a number.
\<close>

theorem efficiency_bounds_counterexample:
  "(\<exists>r. simulate_dc_motor (default_param_vars(''load_torque'' \<mapsto> Numeric (Fin 150))) = Inr r
      \<and> fgt (input_power r) (Fin 0) \<and> fgt (efficiency r) (Fin 100))
   \<and> (\<exists>r. simulate_dc_motor (default_param_vars(''load_torque'' \<mapsto> Numeric (Fin 600))) = Inr r
      \<and> fgt (input_power r) (Fin 0) \<and> fless (efficiency r) (Fin 0))
   \<and> (\<exists>r. simulate_dc_motor (default_param_vars(''rated_speed'' \<mapsto> Numeric (Fin (- 1500))))
          = Inr r
      \<and> fgt (fmul (input_voltage r) (current_curve r ! 1)) (Fin 0)
      \<and> fless (efficiency_curve r ! 1) (Fin 0))
   \<and> (\<exists>a. simulate_ac_motor (default_param_vars(''frequency'' \<mapsto> Numeric (Fin 0))) = Inr a
      \<and> efficiency_curve a ! 0 = NaN)"
proof (intro conjI)
  let ?pv = "default_param_vars(''load_torque'' \<mapsto> Numeric (Fin 150))"
  have l: "get_parameter_value ?pv ''rated_voltage'' (Fin 220) = Fin 220"
    "get_parameter_value ?pv ''armature_resistance'' (Fin 1.5) = Fin 1.5"
    "get_parameter_value ?pv ''back_emf_constant'' (Fin 0.8) = Fin 0.8"
    "get_parameter_value ?pv ''torque_constant'' (Fin 0.8) = Fin 0.8"
    "get_parameter_value ?pv ''load_torque'' (Fin 10) = Fin 150"
    "get_parameter_value ?pv ''rated_speed'' (Fin 1500) = Fin 1500"
    "get_parameter_value ?pv ''field_resistance'' (Fin 100) = Fin 100"
    by (simp_all add: get_parameter_value_upd default_lookups)
  obtain r where r: "simulate_dc_motor ?pv = Inr r"
    using dc_returns_iff [of ?pv] l by auto
  define ia :: real where "ia = (220 - 0.8 * (1500 * 2 * pi / 60)) / 1.5"
  define w :: real where "w = 1500 * (1 - 150 / (0.8 * ia) * 0.1) * 2 * pi / 60"
  note b = default_armature_current_bounds [OF ia_def]
  have pos: "0 < 0.8 * ia" "0 < 220 * ia" using b by simp_all
  note p = dc_point_Fin [OF r l(1-6), folded ia_def, folded w_def, OF pos]
  have "fgt (input_power r) (Fin 0)" using pos by (simp add: p(3) fgt_def)
  moreover have "fgt (efficiency r) (Fin 100)"
    using overload_150 [OF ia_def w_def] by (simp add: p(6) fgt_def)
  ultimately show "\<exists>r. simulate_dc_motor ?pv = Inr r
      \<and> fgt (input_power r) (Fin 0) \<and> fgt (efficiency r) (Fin 100)"
    using r by blast
next
  let ?pv = "default_param_vars(''load_torque'' \<mapsto> Numeric (Fin 600))"
  have l: "get_parameter_value ?pv ''rated_voltage'' (Fin 220) = Fin 220"
    "get_parameter_value ?pv ''armature_resistance'' (Fin 1.5) = Fin 1.5"
    "get_parameter_value ?pv ''back_emf_constant'' (Fin 0.8) = Fin 0.8"
    "get_parameter_value ?pv ''torque_constant'' (Fin 0.8) = Fin 0.8"
    "get_parameter_value ?pv ''load_torque'' (Fin 10) = Fin 600"
    "get_parameter_value ?pv ''rated_speed'' (Fin 1500) = Fin 1500"
    "get_parameter_value ?pv ''field_resistance'' (Fin 100) = Fin 100"
    by (simp_all add: get_parameter_value_upd default_lookups)
  obtain r where r: "simulate_dc_motor ?pv = Inr r"
    using dc_returns_iff [of ?pv] l by auto
  define ia :: real where "ia = (220 - 0.8 * (1500 * 2 * pi / 60)) / 1.5"
  define w :: real where "w = 1500 * (1 - 600 / (0.8 * ia) * 0.1) * 2 * pi / 60"
  note b = default_armature_current_bounds [OF ia_def]
  have pos: "0 < 0.8 * ia" "0 < 220 * ia" using b by simp_all
  note p = dc_point_Fin [OF r l(1-6), folded ia_def, folded w_def, OF pos]
  have "fgt (input_power r) (Fin 0)" using pos by (simp add: p(3) fgt_def)
  moreover have "fless (efficiency r) (Fin 0)"
    using overload_600 [OF ia_def w_def] by (simp add: p(6))
  ultimately show "\<exists>r. simulate_dc_motor ?pv = Inr r
      \<and> fgt (input_power r) (Fin 0) \<and> fless (efficiency r) (Fin 0)"
    using r by blast
next
  let ?pv = "default_param_vars(''rated_speed'' \<mapsto> Numeric (Fin (- 1500)))"
  have l: "get_parameter_value ?pv ''rated_voltage'' (Fin 220) = Fin 220"
    "get_parameter_value ?pv ''armature_resistance'' (Fin 1.5) = Fin 1.5"
    "get_parameter_value ?pv ''back_emf_constant'' (Fin 0.8) = Fin 0.8"
    "get_parameter_value ?pv ''torque_constant'' (Fin 0.8) = Fin 0.8"
    "get_parameter_value ?pv ''rated_speed'' (Fin 1500) = Fin (- 1500)"
    "get_parameter_value ?pv ''field_resistance'' (Fin 100) = Fin 100"
    by (simp_all add: get_parameter_value_upd default_lookups)
  obtain r where r: "simulate_dc_motor ?pv = Inr r"
    using dc_returns_iff [of ?pv] l by auto
  note f = dc_fields(10,12) [OF r, unfolded l]
  have sr: "speed_range r ! 1 = Fin (- (1800 / 49))"
    using dc_speed_range_Fin [OF r l(5)] by (simp del: upt.simps)
  have len: "length (speed_range r) = 50"
    using dc_speed_range_Fin [OF r l(5)] by simp
  define om :: real where "om = - (1800 / 49) * 2 * pi / 60"
  define ia :: real where "ia = (220 - 0.8 * om) / 1.5"
  note rs = reverse_sample [OF om_def ia_def]
  have s: "dc_sample (Fin 220) (Fin 220) (Fin 1.5) (Fin 0.8) (Fin 0.8) (Fin (- (1800 / 49)))
     = (Fin (0.8 * ia), Fin ia, Fin (0.8 * ia * om),
        py_min (Fin (0.8 * ia * om / (220 * ia) * 100)) (Fin 100))"
    using dc_sample_Fin [of "1.5" "220" "0.8" "- (1800 / 49)" "0.8", folded om_def,
        folded ia_def] rs(1)
    by simp
  have "current_curve r ! 1
      = fst (snd (dc_sample (Fin 220) (Fin 220) (Fin 1.5) (Fin 0.8) (Fin 0.8)
          (speed_range r ! 1)))"
    by (subst f(1), rule nth_map) (simp add: len)
  then have c: "current_curve r ! 1 = Fin ia"
    unfolding sr s by simp
  have "efficiency_curve r ! 1
      = snd (snd (snd (dc_sample (Fin 220) (Fin 220) (Fin 1.5) (Fin 0.8) (Fin 0.8)
          (speed_range r ! 1))))"
    by (subst f(2), rule nth_map) (simp add: len)
  then have e: "efficiency_curve r ! 1 = Fin (0.8 * ia * om / (220 * ia) * 100)"
    unfolding sr s using rs(2) by (simp add: py_min_def)
  have v: "input_voltage r = Fin 220"
    using dc_fields(13) [OF r] l(1) by simp
  have "fgt (fmul (input_voltage r) (current_curve r ! 1)) (Fin 0)"
    unfolding v c using rs(1) by (simp add: fgt_def)
  moreover have "fless (efficiency_curve r ! 1) (Fin 0)"
    unfolding e using rs(2) by simp
  ultimately show "\<exists>r. simulate_dc_motor ?pv = Inr r
      \<and> fgt (fmul (input_voltage r) (current_curve r ! 1)) (Fin 0)
      \<and> fless (efficiency_curve r ! 1) (Fin 0)"
    using r by blast
next
  show "\<exists>a. simulate_ac_motor (default_param_vars(''frequency'' \<mapsto> Numeric (Fin 0))) = Inr a
      \<and> efficiency_curve a ! 0 = NaN"
    by (rule standstill_efficiency_sample)
qed

section \<open>Zero slip\<close>




section \<open>The history\<close>

lemma insulation_limit_start_up: "insulation_limit default_param_vars = Inr 155"
  by (simp add: insulation_limit_def default_param_vars_def temp_limit_of_def temp_limits_def
      upper_def upper_char_def)

lemma display_results_returns:
  "insulation_limit pv = Inr limit \<Longrightarrow> \<exists>x. display_results pv res = Inr x"
  by (cases res) (simp_all add: display_results_def calculate_performance_rating_eq Let_def)

text \<open>
  C8. A run is atomic with respect to the history. A run that completes appends exactly
  one bundle, the stamped result of the engine, at the end of the history; a run in which
  anything raises (the engine, the rating behind the display, or a call into the
  toolkit) is reported and leaves the history exactly as it was. In both cases the old
  history is a prefix of the new one, and the parameter store is not changed.
\<close>

theorem run_simulation_atomic:
  assumes "run_simulation toolkit now app = (out, app')"
  shows "(out = Completed \<longrightarrow>
           (\<exists>res. simulation_history app'
                    = simulation_history app @ [stamp now (sim_motor_type app) res]
                  \<and> toolkit res = None))
    \<and> (\<forall>e. out = Reported e \<longrightarrow> simulation_history app' = simulation_history app)
    \<and> prefix (simulation_history app) (simulation_history app')
    \<and> length (simulation_history app')
        = length (simulation_history app) + (if out = Completed then 1 else 0)
    \<and> sim_param_vars app' = sim_param_vars app
    \<and> sim_motor_type app' = sim_motor_type app"
  using assms unfolding run_simulation_def Let_def
  by (auto split: sum.splits option.splits)

theorem run_simulation_atomic_witness:
  "(\<exists>app' res. run_simulation (\<lambda>res. None) ''2026-01-01 12:00:00''
        \<lparr>sim_param_vars = default_param_vars, sim_motor_type = ''DC'',
         simulation_history = []\<rparr> = (Completed, app')
      \<and> simulation_history app' = [stamp ''2026-01-01 12:00:00'' ''DC'' res])
   \<and> (\<exists>app'. run_simulation (\<lambda>res. None) ''2026-01-01 12:00:01''
        \<lparr>sim_param_vars = default_param_vars(''poles'' \<mapsto> Numeric (Fin 0)),
         sim_motor_type = ''AC'', simulation_history = []\<rparr>
          = (Reported ZeroDivisionError, app')
      \<and> simulation_history app' = [])"
proof
  let ?app = "\<lparr>sim_param_vars = default_param_vars, sim_motor_type = ''DC'',
         simulation_history = []\<rparr>"
  let ?now = "''2026-01-01 12:00:00''"
  obtain d where d: "simulate_dc_motor default_param_vars = Inr d"
    using dc_returns_iff [of default_param_vars] by (auto simp: default_lookups)
  obtain x where x: "display_results default_param_vars (DC_bundle d) = Inr x"
    using display_results_returns [OF insulation_limit_start_up] by blast
  have run: "run_simulation (\<lambda>res. None) ?now ?app
      = (Completed, ?app\<lparr>simulation_history := [stamp ?now ''DC'' (DC_bundle d)]\<rparr>)"
    by (simp add: run_simulation_def Let_def d x)
  from run_simulation_atomic [OF run]
  obtain res where "simulation_history
        (?app\<lparr>simulation_history := [stamp ?now ''DC'' (DC_bundle d)]\<rparr>)
      = simulation_history ?app @ [stamp ?now (sim_motor_type ?app) res]"
    by blast
  then have "simulation_history
        (?app\<lparr>simulation_history := [stamp ?now ''DC'' (DC_bundle d)]\<rparr>)
      = [stamp ?now ''DC'' res]"
    by simp
  with run show "\<exists>app' res. run_simulation (\<lambda>res. None) ?now ?app = (Completed, app')
      \<and> simulation_history app' = [stamp ?now ''DC'' res]"
    by blast
next
  let ?pv = "default_param_vars(''poles'' \<mapsto> Numeric (Fin 0))"
  let ?app = "\<lparr>sim_param_vars = ?pv, sim_motor_type = ''AC'', simulation_history = []\<rparr>"
  let ?now = "''2026-01-01 12:00:01''"
  have l: "get_parameter_value ?pv ''poles'' x = Fin 0" for x
    by (simp add: get_parameter_value_upd)
  have a: "simulate_ac_motor ?pv = Inl ZeroDivisionError"
    unfolding simulate_ac_motor_def Let_def l by (simp add: py_div_def)
  have run: "run_simulation (\<lambda>res. None) ?now ?app = (Reported ZeroDivisionError, ?app)"
    by (simp add: run_simulation_def Let_def a)
  show "\<exists>app'. run_simulation (\<lambda>res. None) ?now ?app
          = (Reported ZeroDivisionError, app') \<and> simulation_history app' = []"
    using run run_simulation_atomic [OF run] by simp
qed

section \<open>Defaults\<close>

lemma start_up_lookups:
  "get_parameter_value default_param_vars ''rated_voltage'' (Fin 220) = Fin 220"
  "get_parameter_value default_param_vars ''rated_current'' (Fin 10) = Fin 10"
  "get_parameter_value default_param_vars ''armature_resistance'' (Fin 1.5) = Fin 1.5"
  "get_parameter_value default_param_vars ''field_resistance'' (Fin 100) = Fin 100"
  "get_parameter_value default_param_vars ''back_emf_constant'' (Fin 0.8) = Fin 0.8"
  "get_parameter_value default_param_vars ''torque_constant'' (Fin 0.8) = Fin 0.8"
  "get_parameter_value default_param_vars ''load_torque'' (Fin 10) = Fin 10"
  "get_parameter_value default_param_vars ''rated_speed'' (Fin 1500) = Fin 1500"
  "get_parameter_value default_param_vars ''rotor_inertia'' (Fin 0.001) = Fin 0.001"
  "get_parameter_value default_param_vars ''ambient_temp'' (Fin 40) = Fin 40"
  "get_parameter_value default_param_vars ''frequency'' (Fin 50) = Fin 50"
  "get_parameter_value default_param_vars ''poles'' (Fin 4) = Fin 4"
  "get_parameter_value default_param_vars ''stator_resistance'' (Fin 1.2) = Fin 1.2"
  "get_parameter_value default_param_vars ''rotor_resistance'' (Fin 0.8) = Fin 0.8"
  "get_parameter_value default_param_vars ''magnetizing_current'' (Fin 3.0) = Fin 3.0"
  "get_parameter_value default_param_vars ''slip'' (Fin 3.0) = Fin 3.0"
  by (simp_all add: default_param_vars_def)

lemma no_numeric_entry:
  assumes "\<And>k. pv k = None \<or> (\<exists>s. pv k = Some (Text s))"
  shows "simulate_dc_motor pv = simulate_dc_motor default_param_vars"
    and "simulate_ac_motor pv = simulate_ac_motor default_param_vars"
proof -
  have g: "get_parameter_value pv k d = d" for k d
    using assms [of k] by auto
  show "simulate_dc_motor pv = simulate_dc_motor default_param_vars"
    unfolding simulate_dc_motor_def g start_up_lookups by (rule refl)
  show "simulate_ac_motor pv = simulate_ac_motor default_param_vars"
    unfolding simulate_ac_motor_def g start_up_lookups by (rule refl)
qed

text \<open>
  C7. A lookup of a key that is missing from the store, or whose stored text is not
  numeric, returns the default that the caller gives for that key. The conversion
  raises \<^verbatim>\<open>KeyError\<close> or \<^verbatim>\<open>ValueError\<close> there, the two errors the
  \<^verbatim>\<open>except\<close> clause catches, so the lookup itself never raises. The defaults the
  engines give are the start-up values of the entry fields: on a store without any
  numeric entry both engines run exactly as on the start-up store.
\<close>

theorem get_parameter_value_fallback:
  "(param_vars key = None \<or> (\<exists>s. param_vars key = Some (Text s)) \<longrightarrow>
      get_parameter_value param_vars key dflt = dflt
      \<and> (\<exists>e. param_float param_vars key = Inl e \<and> (e = KeyError \<or> e = ValueError)))
   \<and> ((\<forall>k. param_vars k = None \<or> (\<exists>s. param_vars k = Some (Text s))) \<longrightarrow>
      simulate_dc_motor param_vars = simulate_dc_motor default_param_vars
      \<and> simulate_ac_motor param_vars = simulate_ac_motor default_param_vars)"
proof (intro conjI impI)
  assume "param_vars key = None \<or> (\<exists>s. param_vars key = Some (Text s))"
  then show "get_parameter_value param_vars key dflt = dflt"
    and "\<exists>e. param_float param_vars key = Inl e \<and> (e = KeyError \<or> e = ValueError)"
    by (auto simp: param_float_def)
next
  assume a: "\<forall>k. param_vars k = None \<or> (\<exists>s. param_vars k = Some (Text s))"
  then show "simulate_dc_motor param_vars = simulate_dc_motor default_param_vars"
    by (intro no_numeric_entry(1)) blast
  from a show "simulate_ac_motor param_vars = simulate_ac_motor default_param_vars"
    by (intro no_numeric_entry(2)) blast
qed

theorem get_parameter_value_fallback_witness:
  "get_parameter_value Map.empty ''rated_voltage'' (Fin 220) = Fin 220
   \<and> get_parameter_value [''slip'' \<mapsto> Text ''three''] ''slip'' (Fin 3.0) = Fin 3.0
   \<and> (\<exists>d a. simulate_dc_motor Map.empty = Inr d \<and> simulate_ac_motor Map.empty = Inr a)"
proof -
  have a: "(Map.empty :: param_store) ''rated_voltage'' = None
      \<or> (\<exists>s. (Map.empty :: param_store) ''rated_voltage'' = Some (Text s))"
    by simp
  have b: "[''slip'' \<mapsto> Text ''three''] ''slip'' = None
      \<or> (\<exists>s. [''slip'' \<mapsto> Text ''three''] ''slip'' = Some (Text s))"
    by simp
  have c: "\<forall>k. (Map.empty :: param_store) k = None
      \<or> (\<exists>s. (Map.empty :: param_store) k = Some (Text s))"
    by simp
  obtain d where d: "simulate_dc_motor default_param_vars = Inr d"
    using dc_returns_iff [of default_param_vars] by (auto simp: default_lookups)
  obtain a' where a': "simulate_ac_motor default_param_vars = Inr a'"
    using ac_returns_iff [of default_param_vars] by (auto simp: default_lookups)
  have 1: "get_parameter_value Map.empty ''rated_voltage'' (Fin 220) = Fin 220"
    using get_parameter_value_fallback [of Map.empty "''rated_voltage''" "Fin 220"] a
    by blast
  have 2: "get_parameter_value [''slip'' \<mapsto> Text ''three''] ''slip'' (Fin 3.0) = Fin 3.0"
    using get_parameter_value_fallback
        [of "[''slip'' \<mapsto> Text ''three'']" "''slip''" "Fin 3.0"] b
    by blast
  have 3: "simulate_dc_motor Map.empty = simulate_dc_motor default_param_vars
      \<and> simulate_ac_motor Map.empty = simulate_ac_motor default_param_vars"
    using get_parameter_value_fallback [of Map.empty "''rated_voltage''" "Fin 220"] c
    by blast
  from 1 2 3 d a' show ?thesis by simp
qed

end
